theory Spec2Isabelle
  imports Main "HOL-Library.AList"
begin

section \<open>Data model\<close>

text \<open>
  The module \<^verbatim>\<open>fhirabstractmodel\<close> defines \<^verbatim>\<open>FHIRAbstractModel\<close>, the base class of all
  FHIR element classes, on top of the pydantic validation engine. A class is described by
  what the methods of the module read from it:
  \<^item> \<^verbatim>\<open>__module__\<close> and \<^verbatim>\<open>__name__\<close>;
  \<^item> its own \<^verbatim>\<open>__dict__\<close> (attribute names) and the rest of its method resolution order,
    each ancestor with its \<^verbatim>\<open>__name__\<close> and the names in its \<^verbatim>\<open>__dict__\<close>;
  \<^item> \<^verbatim>\<open>__fields__\<close>, a dictionary from field names to pydantic \<^verbatim>\<open>ModelField\<close>s, of which
    the alias and the answer of \<^verbatim>\<open>is_primitive_type(field)\<close> (imported from
    \<^verbatim>\<open>fhir.resources.utils\<close>) are used;
  \<^item> \<^verbatim>\<open>__fields__["resource_type"].default\<close>, the declared type tag (the field is
    declared \<^verbatim>\<open>resource_type: str\<close>);
  \<^item> the results of \<^verbatim>\<open>elements_sequence()\<close> and \<^verbatim>\<open>get_alias_mapping()\<close>, two class
    methods that every generated element class brings with it and that this module calls
    without defining them;
  \<^item> \<^verbatim>\<open>Config.use_enum_values\<close> and \<^verbatim>\<open>__custom_root_type__\<close>;
  \<^item> the two hook lists \<^verbatim>\<open>__pre_root_validators__\<close> and \<^verbatim>\<open>__post_root_validators__\<close>.
\<close>

record py_function =
  fn_name :: string
  fn_params :: "string list"

record field_info =
  field_alias :: string
  is_primitive :: bool

record model_class =
  cls_module :: string
  cls_name :: string
  cls_dict :: "string list"
  cls_ancestors :: "(string \<times> string list) list"
  cls_fields :: "(string \<times> field_info) list"
  resource_type_default :: string
  elements_sequence :: "string list"
  alias_mapping :: "(string \<times> string) list"
  use_enum_values :: bool
  custom_root_type :: bool
  pre_root_validators :: "py_function list"
  post_root_validators :: "(bool \<times> py_function) list"

text \<open>
  Python values, as far as the module distinguishes them: \<^verbatim>\<open>None\<close>, scalars, lists and
  tuples (the two sequence-like kinds kept apart because \<^verbatim>\<open>filter_empty_list_dict\<close>
  tests for \<^verbatim>\<open>list\<close> only), dictionaries with string keys in insertion order,
  enumeration members with their \<^verbatim>\<open>.value\<close>, and instances of element classes with their
  \<^verbatim>\<open>__dict__\<close>.
\<close>

datatype pyval =
    VNone
  | VBool bool
  | VInt int
  | VStr string
  | VList "pyval list"
  | VTuple "pyval list"
  | VDict "(string \<times> pyval) list"
  | VEnum string pyval
  | VModel model_class "(string \<times> pyval) list"

datatype py_error =
    ValidationError string string string string
  | ConfigError string
  | KeyError string
  | TypeError string
  | AttributeError string
  | NotImplementedError string

datatype log_record = DictExtraArgumentsWarning string

text \<open>\<^verbatim>\<open>d.get(key, None)\<close> on a dictionary.\<close>

definition py_get :: "(string \<times> pyval) list \<Rightarrow> string \<Rightarrow> pyval" where
  "py_get d key = (case map_of d key of None \<Rightarrow> VNone | Some v \<Rightarrow> v)"

text \<open>\<^verbatim>\<open>len(v)\<close>; \<^verbatim>\<open>None\<close> where Python raises \<^verbatim>\<open>TypeError\<close>.\<close>

fun py_len :: "pyval \<Rightarrow> nat option" where
  "py_len (VStr s) = Some (length s)"
| "py_len (VList xs) = Some (length xs)"
| "py_len (VTuple xs) = Some (length xs)"
| "py_len (VDict kvs) = Some (length kvs)"
| "py_len _ = None"

text \<open>
  \<^verbatim>\<open>OrderedDict(pairs)\<close>: a key seen again keeps its place and takes the new value.
\<close>

definition OrderedDict :: "(string \<times> pyval) list \<Rightarrow> (string \<times> pyval) list" where
  "OrderedDict pairs = foldl (\<lambda>acc (k, v). AList.update k v acc) [] pairs"

section \<open>Pruning of empty containers\<close>

text \<open>\<^verbatim>\<open>del items[idx]\<close> for an index in range.\<close>

definition del_at :: "nat \<Rightarrow> 'a list \<Rightarrow> 'a list" where
  "del_at idx items = take idx items @ drop (Suc idx) items"

text \<open>
  \<^verbatim>\<open>filter_empty_list_dict\<close> works in place and returns its argument or \<^verbatim>\<open>None\<close>.
  \<^item> The list branch is \<^verbatim>\<open>for idx, item in enumerate(items)\<close> with \<^verbatim>\<open>del items[idx]\<close>
    in the body. The list iterator holds a position and compares it with the current
    length before every step, and \<^verbatim>\<open>enumerate\<close> counts the steps, so \<^verbatim>\<open>idx\<close> is that
    position: \<open>filter_list_loop idx items\<close> is the loop from position \<open>idx\<close> on,
    on the current contents of the list. A nested container that survives was
    pruned in place, which the model writes back at its position.
  \<^item> The dictionary branch runs over \<^verbatim>\<open>tuple(items.keys())\<close>, a snapshot, so every
    entry is visited once, in order: \<open>filter_dict_loop\<close>.
\<close>

function filter_empty_list_dict :: "pyval \<Rightarrow> pyval"
  and filter_list_loop :: "nat \<Rightarrow> pyval list \<Rightarrow> pyval list"
  and filter_dict_loop :: "(string \<times> pyval) list \<Rightarrow> (string \<times> pyval) list"
where
  "filter_empty_list_dict (VList items) =
     (if length items = 0 then VNone
      else (let items' = filter_list_loop 0 items
            in if length items' = 0 then VNone else VList items'))"
| "filter_empty_list_dict (VDict items) =
     (if length items = 0 then VNone
      else (let items' = filter_dict_loop items
            in if length items' = 0 then VNone else VDict items'))"
| "filter_empty_list_dict VNone = VNone"
| "filter_empty_list_dict (VBool b) = VBool b"
| "filter_empty_list_dict (VInt i) = VInt i"
| "filter_empty_list_dict (VStr s) = VStr s"
| "filter_empty_list_dict (VTuple xs) = VTuple xs"
| "filter_empty_list_dict (VEnum n v) = VEnum n v"
| "filter_empty_list_dict (VModel c d) = VModel c d"
| "filter_list_loop idx items =
     (if idx < length items then
        (let item = items ! idx in
         if item = VNone then filter_list_loop (Suc idx) items
         else (let result = filter_empty_list_dict item in
               if result = VNone then filter_list_loop (Suc idx) (del_at idx items)
               else filter_list_loop (Suc idx) (items[idx := result])))
      else items)"
| "filter_dict_loop [] = []"
| "filter_dict_loop ((key, item) # rest) =
     (if item = VNone then (key, item) # filter_dict_loop rest
      else (let result = filter_empty_list_dict item in
            if result = VNone then filter_dict_loop rest
            else (key, result) # filter_dict_loop rest))"
  by pat_completeness auto
termination
proof (relation "measure (\<lambda>x. case x of
            Inl v \<Rightarrow> 2 * size v
          | Inr (Inl (idx, items)) \<Rightarrow> 2 * size_list size (drop idx items) + 1
          | Inr (Inr kvs) \<Rightarrow> 2 * size_list (size_prod (\<lambda>_. 0) size) kvs + 1)",
       goal_cases)
  case 1
  show ?case by simp
next
  case 2
  then show ?case by simp
next
  case 3
  then show ?case by simp
next
  case 4
  then show ?case by (simp flip: Cons_nth_drop_Suc)
next
  case 5
  then show ?case by (simp flip: Cons_nth_drop_Suc)
next
  case (6 idx items x xa)
  have "drop (Suc idx) (del_at idx items) = drop (Suc (Suc idx)) items"
    using 6(1) by (simp add: del_at_def)
  moreover have "drop idx items = items ! idx # drop (Suc idx) items"
    using 6(1) by (simp add: Cons_nth_drop_Suc)
  moreover have "size_list size (drop (Suc (Suc idx)) items)
      \<le> size_list size (drop (Suc idx) items)"
    by (cases "Suc idx < length items") (simp_all flip: Cons_nth_drop_Suc)
  ultimately show ?case by simp
next
  case 7
  then show ?case by (simp flip: Cons_nth_drop_Suc)
next
  case 8
  then show ?case by simp
next
  case 9
  then show ?case by simp
next
  case 10
  then show ?case by simp
next
  case 11
  then show ?case by simp
qed

section \<open>Construction: the type-tag check\<close>

text \<open>
  The message of the \<^verbatim>\<open>WrongResourceType\<close> error. An f-string renders a \<^verbatim>\<open>str\<close> as it
  is; how another value is rendered is Python's business, taken as the parameter
  \<open>fmt\<close>.
\<close>

definition py_format :: "(pyval \<Rightarrow> string) \<Rightarrow> pyval \<Rightarrow> string" where
  "py_format fmt v = (case v of VStr s \<Rightarrow> s | _ \<Rightarrow> fmt v)"

definition wrong_resource_type_error :: "model_class \<Rightarrow> string \<Rightarrow> string \<Rightarrow> string" where
  "wrong_resource_type_error cls expected_resource_type given =
     ''``'' @ cls_module cls @ ''.'' @ cls_name cls @ ''`` '' @
     ''expects resource type ``'' @ expected_resource_type @ ''``, '' @
     ''but got ``'' @ given @ ''``. '' @
     ''Make sure resource type name is correct and right '' @
     ''ModelClass has been chosen.''"

text \<open>
  \<^verbatim>\<open>ValidationError([ErrorWrapper(WrongResourceType(error=error), loc="resource_type")],
  cls)\<close>: the location, the error code, the message made from \<^verbatim>\<open>msg_template\<close>, and the
  class.
\<close>

definition WrongResourceType :: "model_class \<Rightarrow> string \<Rightarrow> py_error" where
  "WrongResourceType cls error =
     ValidationError ''resource_type'' ''wrong.resource_type''
       (''Wrong ResourceType: '' @ error) (cls_name cls)"

text \<open>
  \<^verbatim>\<open>FHIRAbstractModel.__init__\<close> up to the call of \<^verbatim>\<open>BaseModel.__init__\<close>: the keyword
  arguments \<open>data\<close> are a dictionary; the result is the error raised, or the
  dictionary that is handed on.
\<close>

definition init_check ::
  "(pyval \<Rightarrow> string) \<Rightarrow> model_class \<Rightarrow> (string \<times> pyval) list
     \<Rightarrow> py_error + (string \<times> pyval) list" where
  "init_check fmt cls data0 =
     (let resource_type = py_get data0 ''resource_type'';
          data = AList.delete ''resource_type'' data0;
          (resource_type, data) =
             (if map_of data ''resourceType'' \<noteq> None
                 \<and> map_of (cls_fields cls) ''resourceType'' = None
              then (py_get data ''resourceType'', AList.delete ''resourceType'' data)
              else (resource_type, data))
      in if resource_type \<noteq> VNone \<and> resource_type \<noteq> VStr (resource_type_default cls)
         then Inl (WrongResourceType cls
                (wrong_resource_type_error cls (resource_type_default cls)
                   (py_format fmt resource_type)))
         else Inr data)"

text \<open>
  The whole constructor. \<^verbatim>\<open>BaseModel.__init__\<close> belongs to pydantic and is the parameter
  \<open>base_init\<close>: from the class and the keyword arguments to an error or the
  \<^verbatim>\<open>__dict__\<close> of the new instance.
\<close>

definition init ::
  "(model_class \<Rightarrow> (string \<times> pyval) list \<Rightarrow> py_error + (string \<times> pyval) list)
     \<Rightarrow> (pyval \<Rightarrow> string) \<Rightarrow> model_class \<Rightarrow> (string \<times> pyval) list
     \<Rightarrow> py_error + pyval" where
  "init base_init fmt cls data =
     (case init_check fmt cls data of
        Inl e \<Rightarrow> Inl e
      | Inr data' \<Rightarrow>
          (case base_init cls data' of
             Inl e \<Rightarrow> Inl e
           | Inr d \<Rightarrow> Inr (VModel cls d)))"

text \<open>\<^verbatim>\<open>get_resource_type\<close>: \<^verbatim>\<open>cls.__fields__["resource_type"].default\<close>.\<close>

definition get_resource_type :: "model_class \<Rightarrow> string" where
  "get_resource_type cls = resource_type_default cls"

text \<open>The attribute \<^verbatim>\<open>resource_type\<close> of an instance, read from its \<^verbatim>\<open>__dict__\<close>.\<close>

fun resource_type_attr :: "pyval \<Rightarrow> pyval option" where
  "resource_type_attr (VModel cls d) = map_of d ''resource_type''"
| "resource_type_attr _ = None"

section \<open>Hook registration\<close>

text \<open>
  A validator is passed as a plain function, a \<^verbatim>\<open>classmethod\<close> object or a bound method;
  the last two are unwrapped with \<^verbatim>\<open>__func__\<close>.
\<close>

datatype py_callable =
    Function py_function
  | ClassMethod py_function
  | BoundMethod py_function

fun unwrap_func :: "py_callable \<Rightarrow> py_function" where
  "unwrap_func (Function f) = f"
| "unwrap_func (ClassMethod f) = f"
| "unwrap_func (BoundMethod f) = f"

text \<open>The pydantic \<^verbatim>\<open>Validator\<close> stored under \<^verbatim>\<open>ROOT_VALIDATOR_CONFIG_KEY\<close>.\<close>

record validator_config =
  vc_func :: py_function
  vc_pre :: bool
  vc_skip_on_failure :: bool

text \<open>\<^verbatim>\<open>str(cls)\<close> and \<^verbatim>\<open>str(sig)\<close> for a signature of plain parameter names.\<close>

definition cls_str :: "model_class \<Rightarrow> string" where
  "cls_str cls = ''<class '' @ [CHR 0x27] @ cls_module cls @ ''.'' @ cls_name cls
                   @ [CHR 0x27] @ ''>''"

fun join_comma :: "string list \<Rightarrow> string" where
  "join_comma [] = []"
| "join_comma [x] = x"
| "join_comma (x # y # ys) = x @ '', '' @ join_comma (y # ys)"

definition sig_str :: "string list \<Rightarrow> string" where
  "sig_str params = ''('' @ join_comma params @ '')''"

text \<open>\<^verbatim>\<open>xs.insert(index, x)\<close> with Python's clamping of the index.\<close>

definition py_insert :: "int \<Rightarrow> 'a \<Rightarrow> 'a list \<Rightarrow> 'a list" where
  "py_insert index x xs =
     (let n = int (length xs);
          j = (if index < 0 then max 0 (index + n) else min index n)
      in take (nat j) xs @ [x] @ drop (nat j) xs)"

text \<open>
  \<^verbatim>\<open>add_root_validator\<close>. The class is the state; the result is the class afterwards and
  the exception raised, if any. The pydantic decorator \<^verbatim>\<open>root_validator\<close> is the
  parameter \<open>root_validator\<close>, called with \<^verbatim>\<open>pre\<close>, \<^verbatim>\<open>allow_reuse\<close>,
  \<^verbatim>\<open>skip_on_failure\<close> and the function; it gives the \<^verbatim>\<open>Validator\<close> or raises. The last
  statement, \<^verbatim>\<open>setattr(cls, func_name, validator)\<close>, puts the name into the \<^verbatim>\<open>__dict__\<close> of
  the class, where it was not before (the first check).
\<close>

definition add_root_validator ::
  "(bool \<Rightarrow> bool \<Rightarrow> bool \<Rightarrow> py_function \<Rightarrow> py_error + validator_config)
     \<Rightarrow> model_class \<Rightarrow> py_callable \<Rightarrow> bool \<Rightarrow> bool \<Rightarrow> bool \<Rightarrow> int
     \<Rightarrow> model_class \<times> py_error option" where
  "add_root_validator root_validator cls validator0 pre skip_on_failure allow_reuse index =
     (let validator = unwrap_func validator0;
          func_name = fn_name validator
      in if list_ex (\<lambda>d. func_name \<in> set d) (cls_dict cls # map snd (cls_ancestors cls))
         then (cls, Some (ConfigError (cls_str cls @ '' already has same name ''
                 @ [CHR 0x27] @ func_name @ [CHR 0x27] @ '' method or attribute!'')))
         else if map_of (cls_fields cls) func_name \<noteq> None
         then (cls, Some (ConfigError (cls_str cls @ '' already has same name ''
                 @ [CHR 0x27] @ func_name @ [CHR 0x27] @ '' field!'')))
         else
           (case root_validator pre allow_reuse skip_on_failure validator of
              Inl e \<Rightarrow> (cls, Some e)
            | Inr validator_config \<Rightarrow>
               (let arg_list = fn_params (vc_func validator_config)
                in if length arg_list \<noteq> 2
                   then (cls, Some (ConfigError (''Invalid signature for root validator ''
                           @ func_name @ '': '' @ sig_str arg_list
                           @ '', should be: (cls, values).'')))
                   else if hd arg_list \<noteq> ''cls''
                   then (cls, Some (ConfigError (''Invalid signature for root validator ''
                           @ func_name @ '': '' @ sig_str arg_list @ '', ''
                           @ [CHR 0x22] @ hd arg_list @ [CHR 0x22] @ '' not permitted as first argument, ''
                           @ ''should be: (cls, values).'')))
                   else
                     (let cls1 =
                        (if vc_pre validator_config then
                           (if index = - 1
                            then cls\<lparr>pre_root_validators :=
                                   pre_root_validators cls @ [vc_func validator_config]\<rparr>
                            else cls\<lparr>pre_root_validators :=
                                   py_insert index (vc_func validator_config)
                                     (pre_root_validators cls)\<rparr>)
                         else
                           (if index = - 1
                            then cls\<lparr>post_root_validators :=
                                   post_root_validators cls
                                     @ [(vc_skip_on_failure validator_config,
                                         vc_func validator_config)]\<rparr>
                            else cls\<lparr>post_root_validators :=
                                   py_insert index
                                     (vc_skip_on_failure validator_config,
                                      vc_func validator_config)
                                     (post_root_validators cls)\<rparr>))
                      in (cls1\<lparr>cls_dict := cls_dict cls1 @ [func_name]\<rparr>, None)))))"

section \<open>Resource-base classification\<close>

text \<open>
  \<^verbatim>\<open>has_resource_base\<close>: \<^verbatim>\<open>inspect.getmro(cls)[:-4]\<close> is the method resolution order, the
  class first, without its last four entries.
\<close>

definition getmro_names :: "model_class \<Rightarrow> string list" where
  "getmro_names cls = cls_name cls # map fst (cls_ancestors cls)"

definition has_resource_base :: "model_class \<Rightarrow> bool" where
  "has_resource_base cls =
     list_ex (\<lambda>name. name = ''Resource'')
       (take (length (getmro_names cls) - 4) (getmro_names cls))"

section \<open>Serialization: mapping form\<close>

text \<open>
  The last step of \<^verbatim>\<open>_fhir_get_value\<close>: an empty sequence or dictionary becomes
  \<^verbatim>\<open>None\<close> when \<^verbatim>\<open>exclude_none\<close> is true. Lists and tuples are the sequence-like
  values of the model.
\<close>

fun sequence_like :: "pyval \<Rightarrow> bool" where
  "sequence_like (VList xs) = True"
| "sequence_like (VTuple xs) = True"
| "sequence_like _ = False"

fun is_dict :: "pyval \<Rightarrow> bool" where
  "is_dict (VDict kvs) = True"
| "is_dict _ = False"

definition collapse_empty :: "bool \<Rightarrow> pyval \<Rightarrow> pyval" where
  "collapse_empty exclude_none val =
     (if (sequence_like val \<or> is_dict val) \<and> exclude_none \<and> py_len val = Some 0
      then VNone else val)"

text \<open>
  \<^verbatim>\<open>_fhir_get_value\<close>, \<^verbatim>\<open>_fhir_iter\<close> and the \<^verbatim>\<open>dict\<close> of a nested instance call each
  other. \<open>fhir_get_value cls\<close> is the class method of \<open>cls\<close>;
  \<open>fhir_get_values\<close> is its generator over a sequence and \<open>fhir_get_items\<close> its
  dictionary comprehension; \<open>fhir_iter cls d\<close> is the generator \<^verbatim>\<open>_fhir_iter\<close> of an
  instance of \<open>cls\<close> with \<^verbatim>\<open>__dict__\<close> \<open>d\<close>, as the list of the pairs it yields, and
  \<open>fhir_iter_props\<close> its loop over \<^verbatim>\<open>elements_sequence()\<close>. The arguments
  \<open>ba\<close>, \<open>en\<close>, \<open>ec\<close> are \<^verbatim>\<open>by_alias\<close>, \<^verbatim>\<open>exclude_none\<close>, \<^verbatim>\<open>exclude_comments\<close>. A
  failed dictionary lookup is a \<^verbatim>\<open>KeyError\<close>, a missing attribute an
  \<^verbatim>\<open>AttributeError\<close>, \<^verbatim>\<open>len\<close> of a value without length a \<^verbatim>\<open>TypeError\<close>. The module
  uses the names \<^verbatim>\<open>OrderedDict\<close> and \<^verbatim>\<open>Enum\<close> without importing them; they are read as
  \<^verbatim>\<open>collections.OrderedDict\<close> and \<^verbatim>\<open>enum.Enum\<close>.
\<close>

function fhir_get_value :: "model_class \<Rightarrow> bool \<Rightarrow> bool \<Rightarrow> bool \<Rightarrow> pyval \<Rightarrow> py_error + pyval"
  and fhir_get_values ::
    "model_class \<Rightarrow> bool \<Rightarrow> bool \<Rightarrow> bool \<Rightarrow> pyval list \<Rightarrow> py_error + pyval list"
  and fhir_get_items ::
    "model_class \<Rightarrow> bool \<Rightarrow> bool \<Rightarrow> bool \<Rightarrow> (string \<times> pyval) list
       \<Rightarrow> py_error + (string \<times> pyval) list"
  and fhir_iter ::
    "model_class \<Rightarrow> (string \<times> pyval) list \<Rightarrow> bool \<Rightarrow> bool \<Rightarrow> bool
       \<Rightarrow> py_error + (string \<times> pyval) list"
  and fhir_iter_props ::
    "model_class \<Rightarrow> (string \<times> pyval) list \<Rightarrow> bool \<Rightarrow> bool \<Rightarrow> bool \<Rightarrow> string list
       \<Rightarrow> py_error + (string \<times> pyval) list"
where
  "fhir_get_value cls ba en ec (VModel c d) =
     (case fhir_iter c d ba en ec of
        Inl e \<Rightarrow> Inl e
      | Inr pairs \<Rightarrow>
          (let v_dict = OrderedDict pairs in
           case map_of v_dict ''__root__'' of
             Some root \<Rightarrow> Inr root
           | None \<Rightarrow> Inr (collapse_empty en (VDict v_dict))))"
| "fhir_get_value cls ba en ec (VDict kvs) =
     (case fhir_get_items cls ba en ec kvs of
        Inl e \<Rightarrow> Inl e
      | Inr kvs' \<Rightarrow> Inr (collapse_empty en (VDict kvs')))"
| "fhir_get_value cls ba en ec (VList xs) =
     (case fhir_get_values cls ba en ec xs of
        Inl e \<Rightarrow> Inl e
      | Inr xs' \<Rightarrow> Inr (collapse_empty en (VList xs')))"
| "fhir_get_value cls ba en ec (VTuple xs) =
     (case fhir_get_values cls ba en ec xs of
        Inl e \<Rightarrow> Inl e
      | Inr xs' \<Rightarrow> Inr (collapse_empty en (VTuple xs')))"
| "fhir_get_value cls ba en ec (VEnum n val) =
     (if use_enum_values cls then Inr (collapse_empty en val)
      else Inr (collapse_empty en (VEnum n val)))"
| "fhir_get_value cls ba en ec VNone = Inr (collapse_empty en VNone)"
| "fhir_get_value cls ba en ec (VBool b) = Inr (collapse_empty en (VBool b))"
| "fhir_get_value cls ba en ec (VInt i) = Inr (collapse_empty en (VInt i))"
| "fhir_get_value cls ba en ec (VStr s) = Inr (collapse_empty en (VStr s))"
| "fhir_get_values cls ba en ec [] = Inr []"
| "fhir_get_values cls ba en ec (v # vs) =
     (case fhir_get_value cls ba en ec v of
        Inl e \<Rightarrow> Inl e
      | Inr r \<Rightarrow>
          (case fhir_get_values cls ba en ec vs of
             Inl e \<Rightarrow> Inl e
           | Inr rs \<Rightarrow> Inr (r # rs)))"
| "fhir_get_items cls ba en ec [] = Inr []"
| "fhir_get_items cls ba en ec ((k, v) # kvs) =
     (case fhir_get_value cls ba en ec v of
        Inl e \<Rightarrow> Inl e
      | Inr r \<Rightarrow>
          (case fhir_get_items cls ba en ec kvs of
             Inl e \<Rightarrow> Inl e
           | Inr rs \<Rightarrow> Inr ((k, r) # rs)))"
| "fhir_iter c d ba en ec =
     (case (if has_resource_base c
            then (case map_of d ''resource_type'' of
                    None \<Rightarrow> Inl (AttributeError ''resource_type'')
                  | Some tag \<Rightarrow> Inr [(''resourceType'', tag)])
            else Inr []) of
        Inl e \<Rightarrow> Inl e
      | Inr tag_pairs \<Rightarrow>
          (case fhir_iter_props c d ba en ec (elements_sequence c) of
             Inl e \<Rightarrow> Inl e
           | Inr element_pairs \<Rightarrow>
               (let comments = py_get d ''fhir_comments'' in
                Inr (tag_pairs @ element_pairs @
                     (if comments \<noteq> VNone \<and> \<not> ec then [(''fhir_comments'', comments)]
                      else [])))))"
| "fhir_iter_props c d ba en ec [] = Inr []"
| "fhir_iter_props c d ba en ec (prop_name # rest) =
     (case map_of (alias_mapping c) prop_name of
        None \<Rightarrow> Inl (KeyError prop_name)
      | Some field_key \<Rightarrow>
     (case map_of (cls_fields c) field_key of
        None \<Rightarrow> Inl (KeyError field_key)
      | Some field \<Rightarrow>
     (let v0 = py_get d field_key;
          dict_key = (if ba \<and> field_alias field \<noteq> [] then field_alias field else field_key)
      in
      case (if v0 \<noteq> VNone then fhir_get_value c ba en ec v0 else Inr v0) of
        Inl e \<Rightarrow> Inl e
      | Inr v \<Rightarrow>
     (let field_pairs = (if v \<noteq> VNone \<or> (\<not> en \<and> v = VNone) then [(dict_key, v)] else [])
      in
      case (if is_primitive field then
              (let ext_key = field_key @ ''__ext'';
                   ext_val0 = py_get d ext_key
               in if ext_val0 \<noteq> VNone then
                    (case (if ba then
                             (case map_of (cls_fields c) ext_key of
                                None \<Rightarrow> Inl (KeyError ext_key)
                              | Some ext_field \<Rightarrow>
                                  Inr (if field_alias ext_field \<noteq> []
                                       then field_alias ext_field else ext_key))
                           else Inr ext_key) of
                       Inl e \<Rightarrow> Inl e
                     | Inr dict_key_ext \<Rightarrow>
                    (case fhir_get_value c ba en ec ext_val0 of
                       Inl e \<Rightarrow> Inl e
                     | Inr ext_val \<Rightarrow>
                         (if ext_val \<noteq> VNone then
                            (case py_len ext_val of
                               None \<Rightarrow> Inl (TypeError ''len'')
                             | Some n \<Rightarrow>
                                 Inr (if n > 0 then [(dict_key_ext, ext_val)] else []))
                          else Inr [])))
                  else Inr [])
            else Inr []) of
        Inl e \<Rightarrow> Inl e
      | Inr ext_pairs \<Rightarrow>
     (case fhir_iter_props c d ba en ec rest of
        Inl e \<Rightarrow> Inl e
      | Inr rest_pairs \<Rightarrow> Inr (field_pairs @ ext_pairs @ rest_pairs))))))"
  by pat_completeness auto
termination
proof (relation "inv_image (less_than <*lex*> less_than) (\<lambda>x. case x of
            Inl (Inl (cls, ba, en, ec, v)) \<Rightarrow> (size v, 0)
          | Inl (Inr (cls, ba, en, ec, vs)) \<Rightarrow> (size_list size vs, 0)
          | Inr (Inl (cls, ba, en, ec, kvs)) \<Rightarrow>
              (size_list (size_prod (\<lambda>_. 0) size) kvs, 0)
          | Inr (Inr (Inl (c, d, ba, en, ec))) \<Rightarrow>
              (size_list (size_prod (\<lambda>_. 0) size) d, Suc (length (elements_sequence c)))
          | Inr (Inr (Inr (c, d, ba, en, ec, props))) \<Rightarrow>
              (size_list (size_prod (\<lambda>_. 0) size) d, length props))",
       goal_cases)
  have lookup_size: "py_get d key \<noteq> VNone
      \<Longrightarrow> size (py_get d key) < size_list (size_prod (\<lambda>_. 0) size) d"
    for d :: "(string \<times> pyval) list" and key
  proof (induction d)
    case Nil
    then show ?case by (simp add: py_get_def)
  next
    case (Cons kv d)
    then show ?case by (cases kv) (auto simp: py_get_def split: if_splits)
  qed
  {
    case 1
    show ?case by auto
  next
    case 2
    then show ?case by simp
  next
    case 3
    then show ?case by simp
  next
    case 4
    then show ?case by simp
  next
    case 5
    then show ?case by simp
  next
    case 6
    then show ?case by simp
  next
    case 7
    then show ?case by simp
  next
    case 8
    then show ?case by simp
  next
    case 9
    then show ?case by simp
  next
    case 10
    then show ?case by simp
  next
    case 11
    then show ?case by (simp add: lookup_size)
  next
    case 12
    then show ?case by (simp add: lookup_size)
  next
    case 13
    then show ?case by simp
  }
qed

text \<open>
  The public \<^verbatim>\<open>dict\<close>. Keyword arguments other than the three flags arrive in
  \<^verbatim>\<open>pydantic_extra\<close>; the method logs a warning when there are any and builds the
  \<^verbatim>\<open>OrderedDict\<close> from \<^verbatim>\<open>_fhir_iter\<close>. The result is the log and the dictionary or the
  exception. (A nested instance is serialized by \<open>fhir_get_value\<close> with the three
  flags only, so nothing is logged there.)
\<close>

definition dict ::
  "model_class \<Rightarrow> (string \<times> pyval) list \<Rightarrow> bool \<Rightarrow> bool \<Rightarrow> bool \<Rightarrow> (string \<times> 'x) list
     \<Rightarrow> log_record list \<times> (py_error + (string \<times> pyval) list)" where
  "dict cls d by_alias exclude_none exclude_comments pydantic_extra =
     ((if length pydantic_extra > 0 then [DictExtraArgumentsWarning (cls_name cls)] else []),
      (case fhir_iter cls d by_alias exclude_none exclude_comments of
         Inl e \<Rightarrow> Inl e
       | Inr pairs \<Rightarrow> Inr (OrderedDict pairs)))"

section \<open>Serialization: text form\<close>

text \<open>
  The \<^verbatim>\<open>include\<close> and \<^verbatim>\<open>exclude\<close> arguments of \<^verbatim>\<open>json\<close>: \<^verbatim>\<open>None\<close>, a set of names, a
  dictionary (its values are \<^verbatim>\<open>...\<close> or nested arguments), or a value of another type.
\<close>

datatype exclude_arg =
    ExcludeNone
  | Ellipsis
  | ExcludeSet "string list"
  | ExcludeDict "(string \<times> exclude_arg) list"
  | ExcludeOther

datatype extra_arg = ExtraExclude exclude_arg | ExtraBool bool

text \<open>
  \<^verbatim>\<open>json\<close> up to the call of the encoder: \<open>json_data\<close> is the log and the value
  \<^verbatim>\<open>data\<close> that is handed to \<^verbatim>\<open>self.__config__.json_dumps\<close>, or the exception raised
  before. The encoder itself is configuration, and the block on \<^verbatim>\<open>dumps_kwargs\<close> only
  prepares its keyword arguments; both stay outside. The call of \<^verbatim>\<open>self.dict\<close> passes
  \<^verbatim>\<open>include\<close>, \<^verbatim>\<open>exclude\<close>, \<^verbatim>\<open>by_alias\<close>, \<^verbatim>\<open>exclude_unset\<close>, \<^verbatim>\<open>exclude_defaults\<close> and
  \<^verbatim>\<open>exclude_none\<close>: four of them land in \<^verbatim>\<open>pydantic_extra\<close>, and \<^verbatim>\<open>exclude_comments\<close>
  is not among the arguments, so \<^verbatim>\<open>dict\<close> runs with its default \<^verbatim>\<open>False\<close>.
\<close>

definition json_data ::
  "model_class \<Rightarrow> (string \<times> pyval) list \<Rightarrow> exclude_arg \<Rightarrow> exclude_arg \<Rightarrow> bool option
     \<Rightarrow> bool \<Rightarrow> bool \<Rightarrow> bool option \<Rightarrow> bool
     \<Rightarrow> log_record list \<times> (py_error + pyval)" where
  "json_data cls d include exclude0 by_alias0 exclude_unset exclude_defaults exclude_none0
       exclude_comments =
     (let by_alias = (case by_alias0 of None \<Rightarrow> True | Some b \<Rightarrow> b);
          exclude_none = (case exclude_none0 of None \<Rightarrow> True | Some b \<Rightarrow> b)
      in
      case (if exclude_comments then
              (case exclude0 of
                 ExcludeNone \<Rightarrow> Inr (ExcludeSet [''fhir_comments''])
               | ExcludeSet names \<Rightarrow> Inr (ExcludeSet (List.insert ''fhir_comments'' names))
               | ExcludeDict m \<Rightarrow> Inr (ExcludeDict (AList.update ''fhir_comments'' Ellipsis m))
               | _ \<Rightarrow> Inl (NotImplementedError
                          ''Only Set or Dict type ``exclude`` value is accepted''))
            else Inr exclude0) of
        Inl e \<Rightarrow> ([], Inl e)
      | Inr exclude \<Rightarrow>
          (let (log, result) =
                 dict cls d by_alias exclude_none False
                   [(''include'', ExtraExclude include),
                    (''exclude'', ExtraExclude exclude),
                    (''exclude_unset'', ExtraBool exclude_unset),
                    (''exclude_defaults'', ExtraBool exclude_defaults)]
           in
           case result of
             Inl e \<Rightarrow> (log, Inl e)
           | Inr data \<Rightarrow>
               (case (if custom_root_type cls
                      then (case map_of data ''__root__'' of
                              None \<Rightarrow> Inl (KeyError ''__root__'')
                            | Some root \<Rightarrow> Inr root)
                      else Inr (VDict data)) of
                  Inl e \<Rightarrow> (log, Inl e)
                | Inr data' \<Rightarrow>
                    (log, Inr (if exclude_comments then filter_empty_list_dict data'
                               else data')))))"

section \<open>Notions used in the statements\<close>

text \<open>
  The list loop of \<open>filter_empty_list_dict\<close> seen from the elements: an element that is
  deleted moves its successor to the position just visited, so the successor is passed
  over and stays as it is. \<open>prune_walk\<close> is shown below to be what \<open>filter_list_loop\<close>
  computes; it is used in proofs only.
\<close>

fun prune_walk :: "pyval list \<Rightarrow> pyval list" where
  "prune_walk [] = []"
| "prune_walk (x # xs) =
     (if x = VNone then x # prune_walk xs
      else if filter_empty_list_dict x = VNone
           then (case xs of [] \<Rightarrow> [] | y # ys \<Rightarrow> y # prune_walk ys)
           else filter_empty_list_dict x # prune_walk xs)"

text \<open>The entries of a list or dictionary value; none for any other value.\<close>

fun list_items :: "pyval \<Rightarrow> pyval list" where
  "list_items (VList xs) = xs"
| "list_items _ = []"

fun dict_items :: "pyval \<Rightarrow> (string \<times> pyval) list" where
  "dict_items (VDict kvs) = kvs"
| "dict_items _ = []"

text \<open>
  The number of entries, at any depth of nested lists and dictionaries, whose value is
  \<^verbatim>\<open>None\<close>.
\<close>

fun null_entries :: "pyval \<Rightarrow> nat" where
  "null_entries (VList xs) =
     sum_list (map (\<lambda>x. if x = VNone then 1 else null_entries x) xs)"
| "null_entries (VDict kvs) =
     sum_list (map (\<lambda>kv. if snd kv = VNone then 1 else null_entries (snd kv)) kvs)"
| "null_entries _ = 0"

text \<open>
  The tag that the constructor checks: the value under \<^verbatim>\<open>resourceType\<close> when that key is
  given and is not the name of a declared field, otherwise the value under
  \<^verbatim>\<open>resource_type\<close> (\<^verbatim>\<open>None\<close> when the key is missing).
\<close>

definition supplied_tag :: "model_class \<Rightarrow> (string \<times> pyval) list \<Rightarrow> pyval" where
  "supplied_tag cls data =
     (if map_of data ''resourceType'' \<noteq> None \<and> map_of (cls_fields cls) ''resourceType'' = None
      then py_get data ''resourceType''
      else py_get data ''resource_type'')"

text \<open>
  The keys under which the loop of \<^verbatim>\<open>_fhir_iter\<close> can yield for one element: the key of
  the element and, for a primitive element, the key of its extension companion.
  \<open>element_keys\<close> collects them over \<^verbatim>\<open>elements_sequence()\<close>.
\<close>

definition prop_keys :: "model_class \<Rightarrow> bool \<Rightarrow> string \<Rightarrow> string list" where
  "prop_keys c ba prop =
     (case map_of (alias_mapping c) prop of
        None \<Rightarrow> []
      | Some field_key \<Rightarrow>
          (case map_of (cls_fields c) field_key of
             None \<Rightarrow> []
           | Some field \<Rightarrow>
               (if ba \<and> field_alias field \<noteq> [] then field_alias field else field_key) #
               (if is_primitive field then
                  (if ba then
                     (case map_of (cls_fields c) (field_key @ ''__ext'') of
                        None \<Rightarrow> []
                      | Some ext_field \<Rightarrow>
                          [if field_alias ext_field \<noteq> [] then field_alias ext_field
                           else field_key @ ''__ext''])
                   else [field_key @ ''__ext''])
                else [])))"

definition element_keys :: "model_class \<Rightarrow> bool \<Rightarrow> string list" where
  "element_keys c ba = concat (map (prop_keys c ba) (elements_sequence c))"

text \<open>
  For one element name: the field it resolves to, and the key it is emitted under.
  \<open>elements_resolve\<close> says that every element name of the class resolves to a declared
  field, so that the loop raises no \<^verbatim>\<open>KeyError\<close>.
\<close>

definition element_field_key :: "model_class \<Rightarrow> string \<Rightarrow> string" where
  "element_field_key c pname =
     (case map_of (alias_mapping c) pname of None \<Rightarrow> [] | Some field_key \<Rightarrow> field_key)"

definition element_key :: "model_class \<Rightarrow> bool \<Rightarrow> string \<Rightarrow> string" where
  "element_key c ba pname =
     (case map_of (alias_mapping c) pname of
        None \<Rightarrow> []
      | Some field_key \<Rightarrow>
          (case map_of (cls_fields c) field_key of
             None \<Rightarrow> []
           | Some field \<Rightarrow>
               (if ba \<and> field_alias field \<noteq> [] then field_alias field else field_key)))"

definition elements_resolve :: "model_class \<Rightarrow> bool" where
  "elements_resolve c =
     list_all (\<lambda>pname. case map_of (alias_mapping c) pname of
                          None \<Rightarrow> False
                        | Some field_key \<Rightarrow> map_of (cls_fields c) field_key \<noteq> None)
       (elements_sequence c)"

section \<open>Example classes\<close>

text \<open>
  The tail of every method resolution order: \<^verbatim>\<open>FHIRAbstractModel\<close>, then pydantic's
  \<^verbatim>\<open>BaseModel\<close> and \<^verbatim>\<open>Representation\<close>, \<^verbatim>\<open>ABC\<close> and \<^verbatim>\<open>object\<close>.
\<close>

definition abstract_model_mro :: "(string \<times> string list) list" where
  "abstract_model_mro =
     [(''FHIRAbstractModel'',
         [''__init__'', ''add_root_validator'', ''element_properties'',
          ''has_resource_base'', ''get_resource_type'', ''get_json_encoder'',
          ''parse_file'', ''parse_raw'', ''yaml'', ''json'', ''dict'', ''_fhir_iter'',
          ''_fhir_get_value'', ''Config'']),
      (''BaseModel'', [''copy'', ''construct'', ''validate'']),
      (''Representation'', [''__repr__'']),
      (''ABC'', []),
      (''object'', [''__eq__''])]"

text \<open>A resource: \<^verbatim>\<open>Patient\<close> with a primitive element, its extension, and a list element.\<close>

definition Patient :: model_class where
  "Patient =
     \<lparr>cls_module = ''fhir.resources.patient'', cls_name = ''Patient'',
      cls_dict = [''elements_sequence''],
      cls_ancestors = (''DomainResource'', []) # (''Resource'', []) # abstract_model_mro,
      cls_fields =
        [(''resource_type'', \<lparr>field_alias = ''resource_type'', is_primitive = True\<rparr>),
         (''fhir_comments'', \<lparr>field_alias = ''fhir_comments'', is_primitive = False\<rparr>),
         (''active'', \<lparr>field_alias = ''active'', is_primitive = True\<rparr>),
         (''active__ext'', \<lparr>field_alias = ''_active'', is_primitive = False\<rparr>),
         (''name'', \<lparr>field_alias = ''name'', is_primitive = False\<rparr>)],
      resource_type_default = ''Patient'',
      elements_sequence = [''active'', ''name''],
      alias_mapping = [(''active'', ''active''), (''name'', ''name'')],
      use_enum_values = False, custom_root_type = False,
      pre_root_validators = [], post_root_validators = []\<rparr>"

text \<open>A data type that is not a resource: \<^verbatim>\<open>HumanName\<close>.\<close>

definition HumanName :: model_class where
  "HumanName =
     \<lparr>cls_module = ''fhir.resources.humanname'', cls_name = ''HumanName'',
      cls_dict = [''elements_sequence''],
      cls_ancestors = (''Element'', []) # abstract_model_mro,
      cls_fields =
        [(''resource_type'', \<lparr>field_alias = ''resource_type'', is_primitive = True\<rparr>),
         (''fhir_comments'', \<lparr>field_alias = ''fhir_comments'', is_primitive = False\<rparr>),
         (''family'', \<lparr>field_alias = ''family'', is_primitive = True\<rparr>),
         (''family__ext'', \<lparr>field_alias = ''_family'', is_primitive = False\<rparr>),
         (''given'', \<lparr>field_alias = ''given'', is_primitive = True\<rparr>),
         (''given__ext'', \<lparr>field_alias = ''_given'', is_primitive = False\<rparr>)],
      resource_type_default = ''HumanName'',
      elements_sequence = [''family'', ''given''],
      alias_mapping = [(''family'', ''family''), (''given'', ''given'')],
      use_enum_values = False, custom_root_type = False,
      pre_root_validators = [], post_root_validators = []\<rparr>"

text \<open>
  A backbone element that has an element of its own called \<^verbatim>\<open>resourceType\<close>, as
  \<^verbatim>\<open>ExampleScenario.instance\<close> has in FHIR.
\<close>

definition ExampleScenarioInstance :: model_class where
  "ExampleScenarioInstance =
     \<lparr>cls_module = ''fhir.resources.examplescenario'',
      cls_name = ''ExampleScenarioInstance'',
      cls_dict = [''elements_sequence''],
      cls_ancestors = (''BackboneElement'', []) # (''Element'', []) # abstract_model_mro,
      cls_fields =
        [(''resource_type'', \<lparr>field_alias = ''resource_type'', is_primitive = True\<rparr>),
         (''fhir_comments'', \<lparr>field_alias = ''fhir_comments'', is_primitive = False\<rparr>),
         (''resourceType'', \<lparr>field_alias = ''resourceType'', is_primitive = True\<rparr>),
         (''resourceType__ext'', \<lparr>field_alias = ''_resourceType'', is_primitive = False\<rparr>),
         (''name'', \<lparr>field_alias = ''name'', is_primitive = True\<rparr>),
         (''name__ext'', \<lparr>field_alias = ''_name'', is_primitive = False\<rparr>)],
      resource_type_default = ''ExampleScenarioInstance'',
      elements_sequence = [''resourceType'', ''name''],
      alias_mapping = [(''resourceType'', ''resourceType''), (''name'', ''name'')],
      use_enum_values = False, custom_root_type = False,
      pre_root_validators = [], post_root_validators = []\<rparr>"

text \<open>
  A stand-in for pydantic's \<^verbatim>\<open>root_validator\<close> decorator when it accepts the function: the
  \<^verbatim>\<open>Validator\<close> holds the function and the two flags.
\<close>

definition accepting_root_validator ::
  "bool \<Rightarrow> bool \<Rightarrow> bool \<Rightarrow> py_function \<Rightarrow> py_error + validator_config" where
  "accepting_root_validator pre allow_reuse skip_on_failure f =
     Inr \<lparr>vc_func = f, vc_pre = pre, vc_skip_on_failure = skip_on_failure\<rparr>"

text \<open>
  A stand-in for \<^verbatim>\<open>BaseModel.__init__\<close> that does what pydantic does with the type tag:
  a field that is not given takes its declared default.
\<close>

definition defaults_filling_base_init ::
  "model_class \<Rightarrow> (string \<times> pyval) list \<Rightarrow> py_error + (string \<times> pyval) list" where
  "defaults_filling_base_init cls data =
     Inr ((''resource_type'',
           (case map_of data ''resource_type'' of
              None \<Rightarrow> VStr (resource_type_default cls) | Some v \<Rightarrow> v)) #
          AList.delete ''resource_type'' data)"

section \<open>Hook registration: properties\<close>

text \<open>
  Claim C6. When the name of the function passed to \<^verbatim>\<open>add_root_validator\<close> is the name
  of a declared field, or of a method or attribute of the class or of any class in its
  ancestry, the call raises a \<^verbatim>\<open>ConfigError\<close>, and the class is as it was before the call:
  in particular its lists of pre- and post-validation hooks are unchanged.
\<close>

theorem add_root_validator_name_collision:
  assumes "map_of (cls_fields cls) (fn_name (unwrap_func validator)) \<noteq> None
           \<or> (\<exists>d \<in> set (cls_dict cls # map snd (cls_ancestors cls)).
                 fn_name (unwrap_func validator) \<in> set d)"
  shows "\<exists>msg cls'.
           add_root_validator root_validator cls validator pre skip_on_failure allow_reuse index
             = (cls', Some (ConfigError msg))
           \<and> cls' = cls
           \<and> pre_root_validators cls' = pre_root_validators cls
           \<and> post_root_validators cls' = post_root_validators cls"
  using assms by (auto simp: add_root_validator_def Let_def list_ex_iff)

theorem add_root_validator_name_collision_witness:
  "map_of (cls_fields Patient) ''active'' \<noteq> None
   \<and> (\<exists>msg. add_root_validator accepting_root_validator Patient
          (Function \<lparr>fn_name = ''active'', fn_params = [''cls'', ''values'']\<rparr>)
          False False True (- 1) = (Patient, Some (ConfigError msg)))"
proof -
  have h: "map_of (cls_fields Patient)
             (fn_name (unwrap_func
                (Function \<lparr>fn_name = ''active'', fn_params = [''cls'', ''values'']\<rparr>))) \<noteq> None"
    by (simp add: Patient_def)
  from add_root_validator_name_collision [OF disjI1, OF h]
  show ?thesis using h by auto
qed

section \<open>Pruning: properties\<close>

lemma filter_list_loop_walk:
  "idx \<le> length items \<Longrightarrow>
     filter_list_loop idx items = take idx items @ prune_walk (drop idx items)"
proof (induction idx items
    rule: filter_empty_list_dict_filter_list_loop_filter_dict_loop.induct(2)
      [where P = "\<lambda>_. True" and R = "\<lambda>_. True"])
  case (10 idx items)
  show ?case
  proof (cases "idx < length items")
    case False
    with 10(4) show ?thesis by simp
  next
    case lt: True
    then have dr: "drop idx items = items ! idx # drop (Suc idx) items"
      by (simp add: Cons_nth_drop_Suc)
    show ?thesis
    proof (cases "items ! idx = VNone")
      case True
      then show ?thesis using 10(1)[OF lt refl True] lt dr
        by (subst filter_list_loop.simps) (simp add: Let_def take_Suc_conv_app_nth)
    next
      case nn: False
      show ?thesis
      proof (cases "filter_empty_list_dict (items ! idx) = VNone")
        case gone: True
        show ?thesis
        proof (cases "Suc idx < length items")
          case True
          then have l2: "Suc idx \<le> length (del_at idx items)" by (simp add: del_at_def)
          have d2: "drop (Suc idx) items = items ! Suc idx # drop (Suc (Suc idx)) items"
            using True by (simp add: Cons_nth_drop_Suc)
          have "take (Suc idx) (del_at idx items) = take idx items @ [items ! Suc idx]"
            using True by (simp add: del_at_def take_Suc_conv_app_nth nth_append min_def)
          moreover have "drop (Suc idx) (del_at idx items) = drop (Suc (Suc idx)) items"
            using lt by (simp add: del_at_def)
          ultimately show ?thesis
            using 10(2)[OF lt refl nn refl gone l2] lt dr d2 nn gone
            by (subst filter_list_loop.simps) (simp add: Let_def)
        next
          case False
          then have e: "Suc idx = length items" using lt by simp
          then have "del_at idx items = take idx items" by (simp add: del_at_def)
          moreover have "drop (Suc idx) items = []" using e by simp
          moreover have "filter_list_loop (Suc idx) (take idx items) = take idx items"
            using lt by (subst filter_list_loop.simps) simp
          ultimately show ?thesis using lt dr nn gone
            by (subst filter_list_loop.simps) (simp add: Let_def)
        qed
      next
        case False
        have "take (Suc idx) (items[idx := filter_empty_list_dict (items ! idx)])
                = take idx items @ [filter_empty_list_dict (items ! idx)]"
          using lt by (simp add: take_Suc_conv_app_nth)
        then show ?thesis
          using 10(3)[OF lt refl nn refl False] lt dr nn False
          by (subst filter_list_loop.simps) (simp add: Let_def)
      qed
    qed
  qed
qed simp_all

lemma filter_empty_list_dict_VList:
  "filter_empty_list_dict (VList xs) =
     (if prune_walk xs = [] then VNone else VList (prune_walk xs))"
  by (cases xs)
     (simp_all add: filter_list_loop_walk Let_def
        del: filter_list_loop.simps prune_walk.simps, simp)

lemma filter_empty_list_dict_VDict:
  "filter_empty_list_dict (VDict kvs) =
     (if filter_dict_loop kvs = [] then VNone else VDict (filter_dict_loop kvs))"
  by (cases kvs) (simp_all add: Let_def del: filter_dict_loop.simps, simp)

lemma filter_dict_loop_eq:
  "filter_dict_loop kvs =
     map (\<lambda>kv. (fst kv, filter_empty_list_dict (snd kv)))
       (filter (\<lambda>kv. snd kv = VNone \<or> filter_empty_list_dict (snd kv) \<noteq> VNone) kvs)"
  by (induction kvs) (auto simp: Let_def)

lemma prune_walk_count_None: "count_list (prune_walk xs) VNone = count_list xs VNone"
  by (induction xs rule: prune_walk.induct) (auto split: list.splits)

lemma prune_walk_null_sum:
  "(\<And>x. x \<in> set xs \<Longrightarrow> null_entries (filter_empty_list_dict x) = null_entries x) \<Longrightarrow>
   sum_list (map (\<lambda>x. if x = VNone then 1 else null_entries x) (prune_walk xs))
     = sum_list (map (\<lambda>x. if x = VNone then 1 else null_entries x) xs)"
proof (induction xs rule: prune_walk.induct)
  case 1
  then show ?case by simp
next
  case (2 x xs)
  show ?case
  proof (cases "x = VNone")
    case True
    then show ?thesis using 2 by simp
  next
    case nn: False
    show ?thesis
    proof (cases "filter_empty_list_dict x = VNone")
      case True
      then have "null_entries x = 0" using 2(4)[of x] by simp
      then show ?thesis using 2(2)[OF nn True] 2(4) nn True
        by (cases xs) auto
    next
      case False
      then show ?thesis using 2(3)[OF nn False] 2(4) nn by auto
    qed
  qed
qed

lemma filter_keeps_null_count:
  "null_entries (filter_empty_list_dict t) = null_entries t"
proof (induction t)
  case (VList xs)
  then show ?case
    using prune_walk_null_sum[of xs]
    by (auto simp: filter_empty_list_dict_VList simp del: filter_empty_list_dict.simps)
next
  case (VDict kvs)
  have "sum_list (map (\<lambda>kv. if snd kv = VNone then 1 else null_entries (snd kv))
                   (filter_dict_loop kvs))
      = sum_list (map (\<lambda>kv. if snd kv = VNone then 1 else null_entries (snd kv)) kvs)"
    using VDict
  proof (induction kvs)
    case Nil
    then show ?case by simp
  next
    case (Cons kv kvs)
    obtain k v where kv: "kv = (k, v)" by (cases kv)
    have ih: "null_entries (filter_empty_list_dict v) = null_entries v"
      using Cons(2)[of kv v] kv by simp
    have "(\<And>z a. z \<in> set kvs \<Longrightarrow> a \<in> Basic_BNFs.snds z \<Longrightarrow>
            null_entries (filter_empty_list_dict a) = null_entries a)"
      using Cons(2) by auto
    from Cons(1)[OF this] ih show ?case
      by (auto simp: kv Let_def)
  qed
  then show ?case
    by (cases "filter_dict_loop kvs = []")
       (simp_all add: filter_empty_list_dict_VDict del: filter_empty_list_dict.simps)
qed simp_all

lemma filter_never_empty_container:
  "filter_empty_list_dict t \<noteq> VList [] \<and> filter_empty_list_dict t \<noteq> VDict []"
  by (cases t) (auto simp: Let_def simp del: filter_list_loop.simps)

lemma prune_walk_survivors:
  "x \<in> set xs \<Longrightarrow> x = VNone \<or> filter_empty_list_dict x \<noteq> VNone \<Longrightarrow>
     x \<in> set (prune_walk xs) \<or> filter_empty_list_dict x \<in> set (prune_walk xs)"
proof (induction xs rule: prune_walk.induct)
  case 1
  then show ?case by simp
next
  case (2 y ys)
  show ?case
  proof (cases "y = VNone")
    case True
    then show ?thesis using 2(1)[OF True] 2(4,5) by auto
  next
    case nn: False
    show ?thesis
    proof (cases "filter_empty_list_dict y = VNone")
      case False
      then show ?thesis using 2(3)[OF nn False] 2(4,5) nn by auto
    next
      case gone: True
      then have "x \<noteq> y" using 2(5) nn by auto
      then have mem: "x \<in> set ys" using 2(4) by simp
      then obtain z zs where ys: "ys = z # zs" by (cases ys) auto
      show ?thesis
      proof (cases "x = z")
        case True
        then show ?thesis using nn gone ys by simp
      next
        case False
        then have "x \<in> set zs" using mem ys by simp
        from 2(2)[OF nn gone ys this 2(5)]
        show ?thesis using nn gone ys by auto
      qed
    qed
  qed
qed

text \<open>
  Claim C4, at the input \<^verbatim>\<open>[[], []]\<close>: the first empty list is deleted, the second
  moves to position 0 and is passed over, so one pass returns \<^verbatim>\<open>[[]]\<close>, and a second
  pass on that result returns \<^verbatim>\<open>None\<close>. Pruning twice is not pruning once. The same
  happens inside \<^verbatim>\<open>json\<close>: for a patient with two names that hold nothing but an empty
  comment list, the pruned data still holds a name with an empty list in it.
\<close>

theorem filter_empty_list_dict_twice_differs:
  "filter_empty_list_dict (VList [VList [], VList []]) = VList [VList []]
   \<and> filter_empty_list_dict (filter_empty_list_dict (VList [VList [], VList []])) = VNone
   \<and> snd (json_data Patient
        [(''resource_type'', VStr ''Patient''),
         (''name'', VList
            [VModel HumanName
               [(''resource_type'', VStr ''HumanName''), (''fhir_comments'', VList [])],
             VModel HumanName
               [(''resource_type'', VStr ''HumanName''), (''fhir_comments'', VList [])]])]
        ExcludeNone ExcludeNone None False False None True)
     = Inr (VDict [(''resourceType'', VStr ''Patient''),
                   (''name'', VList [VDict [(''fhir_comments'', VList [])]])])"
  by (simp add: json_data_def dict_def has_resource_base_def getmro_names_def Patient_def
        HumanName_def abstract_model_mro_def py_get_def collapse_empty_def OrderedDict_def
        Let_def del_at_def)

text \<open>
  What one pass of pruning keeps. Null entries are left alone:
  \<^item> the \<^verbatim>\<open>None\<close> elements of a list are all still there afterwards, and the entries of a
    dictionary whose value is \<^verbatim>\<open>None\<close> are the same afterwards, keys and order included;
  \<^item> at any depth, the number of \<^verbatim>\<open>None\<close> entries of the tree does not change;
  \<^item> a dictionary loses exactly the entries whose value is not \<^verbatim>\<open>None\<close> and prunes to
    \<^verbatim>\<open>None\<close>, the others keep their key, with the pruned value;
  \<^item> a list element that is \<^verbatim>\<open>None\<close> or does not prune to \<^verbatim>\<open>None\<close> is still an element
    afterwards, itself or pruned;
  \<^item> the value returned is never itself an empty list or an empty dictionary.
\<close>

lemma filter_empty_list_dict_null_entries:
  "count_list (list_items (filter_empty_list_dict (VList xs))) VNone = count_list xs VNone
   \<and> filter (\<lambda>kv. snd kv = VNone) (dict_items (filter_empty_list_dict (VDict kvs)))
       = filter (\<lambda>kv. snd kv = VNone) kvs
   \<and> null_entries (filter_empty_list_dict t) = null_entries t
   \<and> dict_items (filter_empty_list_dict (VDict kvs))
       = map (\<lambda>kv. (fst kv, filter_empty_list_dict (snd kv)))
           (filter (\<lambda>kv. snd kv = VNone \<or> filter_empty_list_dict (snd kv) \<noteq> VNone) kvs)
   \<and> (\<forall>x \<in> set xs. x = VNone \<or> filter_empty_list_dict x \<noteq> VNone \<longrightarrow>
         x \<in> set (list_items (filter_empty_list_dict (VList xs)))
         \<or> filter_empty_list_dict x \<in> set (list_items (filter_empty_list_dict (VList xs))))
   \<and> filter_empty_list_dict t \<noteq> VList [] \<and> filter_empty_list_dict t \<noteq> VDict []"
proof -
  have c: "count_list (list_items (filter_empty_list_dict (VList xs))) VNone
          = count_list xs VNone"
    using prune_walk_count_None[of xs]
    by (auto simp: filter_empty_list_dict_VList simp del: filter_empty_list_dict.simps)
  have d: "dict_items (filter_empty_list_dict (VDict kvs))
     = map (\<lambda>kv. (fst kv, filter_empty_list_dict (snd kv)))
         (filter (\<lambda>kv. snd kv = VNone \<or> filter_empty_list_dict (snd kv) \<noteq> VNone) kvs)"
    using filter_dict_loop_eq[of kvs]
    by (simp add: filter_empty_list_dict_VDict del: filter_empty_list_dict.simps)
  have n: "filter (\<lambda>kv. snd kv = VNone) (dict_items (filter_empty_list_dict (VDict kvs)))
     = filter (\<lambda>kv. snd kv = VNone) kvs"
    unfolding d by (induction kvs) auto
  have s: "\<forall>x \<in> set xs. x = VNone \<or> filter_empty_list_dict x \<noteq> VNone \<longrightarrow>
      x \<in> set (list_items (filter_empty_list_dict (VList xs)))
      \<or> filter_empty_list_dict x \<in> set (list_items (filter_empty_list_dict (VList xs)))"
  proof (intro ballI impI)
    fix x assume x: "x \<in> set xs" "x = VNone \<or> filter_empty_list_dict x \<noteq> VNone"
    from prune_walk_survivors[OF this]
    show "x \<in> set (list_items (filter_empty_list_dict (VList xs)))
      \<or> filter_empty_list_dict x \<in> set (list_items (filter_empty_list_dict (VList xs)))"
      by (auto simp: filter_empty_list_dict_VList simp del: filter_empty_list_dict.simps)
  qed
  from c d n s filter_keeps_null_count[of t] filter_never_empty_container[of t]
  show ?thesis by blast
qed

text \<open>
  Claim C8 says that null entries are never removed, that the entries whose value
  collapses to an empty list or dictionary are removed, and that a tree that becomes
  entirely empty collapses to \<^verbatim>\<open>None\<close>. The part on null entries holds for every tree.
  The rest fails in the list branch. In \<^verbatim>\<open>{'name': [{}, {}]}\<close> every entry of the list
  collapses to \<^verbatim>\<open>None\<close>, so the list, and the dictionary with it, should collapse to
  \<^verbatim>\<open>None\<close>. The first \<^verbatim>\<open>{}\<close> is deleted while the list is being enumerated, the second
  moves to position 0 and is never examined: the result is \<^verbatim>\<open>{'name': [{}]}\<close>, which
  still holds an empty dictionary. In the same way \<^verbatim>\<open>[[], {}]\<close> gives \<^verbatim>\<open>[{}]\<close>.
\<close>

theorem filter_empty_list_dict_leaves_empty_entry:
  "filter_empty_list_dict (VDict [(''name'', VList [VDict [], VDict []])])
     = VDict [(''name'', VList [VDict []])]
   \<and> filter_empty_list_dict (VDict []) = VNone
   \<and> filter_empty_list_dict (VList [VList [], VDict []]) = VList [VDict []]
   \<and> filter_empty_list_dict (VList []) = VNone"
  by (simp add: del_at_def Let_def)


section \<open>Construction: properties\<close>

lemma map_of_delete_other:
  "k \<noteq> k' \<Longrightarrow> map_of (AList.delete k d) k' = map_of d k'"
  by (simp add: delete_conv')

lemma py_get_delete_other:
  "k \<noteq> k' \<Longrightarrow> py_get (AList.delete k d) k' = py_get d k'"
  by (simp add: py_get_def delete_conv')

lemma init_check_data:
  "init_check fmt cls data = Inr data' \<Longrightarrow>
     data' = (if map_of data ''resourceType'' \<noteq> None \<and> map_of (cls_fields cls) ''resourceType'' = None
              then AList.delete ''resourceType'' (AList.delete ''resource_type'' data)
              else AList.delete ''resource_type'' data)"
  by (auto simp: init_check_def Let_def map_of_delete_other split: if_splits)

text \<open>
  Claim C1, as the code has it. The tag that is checked is the value under
  \<^verbatim>\<open>resourceType\<close> when that key is given and the class declares no field of that name,
  and the value under \<^verbatim>\<open>resource_type\<close> otherwise. When that tag is missing, \<^verbatim>\<open>None\<close> or
  equal to the declared default, the tag check passes and the remaining arguments go on
  to the engine. When it is any other string, the constructor raises a validation error
  at location \<^verbatim>\<open>resource_type\<close> whose message names the module and the name of the
  class, the expected tag and the given tag.
\<close>

theorem init_check_resource_type:
  "(supplied_tag cls data = VNone \<or> supplied_tag cls data = VStr (resource_type_default cls)
      \<longrightarrow> (\<exists>data'. init_check fmt cls data = Inr data'))
   \<and> (\<forall>given. supplied_tag cls data = VStr given \<and> given \<noteq> resource_type_default cls
      \<longrightarrow> init_check fmt cls data =
            Inl (ValidationError ''resource_type'' ''wrong.resource_type''
                  (''Wrong ResourceType: ``'' @ cls_module cls @ ''.'' @ cls_name cls
                    @ ''`` expects resource type ``'' @ resource_type_default cls
                    @ ''``, but got ``'' @ given
                    @ ''``. Make sure resource type name is correct and right ModelClass has been chosen.'')
                  (cls_name cls)))"
  by (auto simp: init_check_def supplied_tag_def Let_def py_get_delete_other map_of_delete_other
        WrongResourceType_def wrong_resource_type_error_def py_format_def)

theorem init_check_resource_type_witness:
  "supplied_tag Patient [(''resourceType'', VStr ''Observation'')] = VStr ''Observation''
   \<and> ''Observation'' \<noteq> resource_type_default Patient
   \<and> init_check (\<lambda>v. []) Patient [(''resourceType'', VStr ''Observation'')] =
        Inl (ValidationError ''resource_type'' ''wrong.resource_type''
              (''Wrong ResourceType: ``fhir.resources.patient.Patient`` ''
                @ ''expects resource type ``Patient``, but got ``Observation``. ''
                @ ''Make sure resource type name is correct and right ''
                @ ''ModelClass has been chosen.'')
              ''Patient'')
   \<and> supplied_tag Patient [(''active'', VBool True)] = VNone
   \<and> (\<exists>data'. init_check (\<lambda>v. []) Patient [(''active'', VBool True)] = Inr data')"
  using init_check_resource_type
          [of Patient "[(''resourceType'', VStr ''Observation'')]" "\<lambda>v. []"]
        init_check_resource_type [of Patient "[(''active'', VBool True)]" "\<lambda>v. []"]
  by (simp add: supplied_tag_def Patient_def py_get_def)

text \<open>
  Claim C1 as stated fails at two inputs. For a class that declares a field called
  \<^verbatim>\<open>resourceType\<close>, a wrong tag string under that key raises nothing: the value stays
  among the arguments as the value of that field. And a wrong tag string under
  \<^verbatim>\<open>resource_type\<close> raises nothing when the right tag comes with it under
  \<^verbatim>\<open>resourceType\<close>.
\<close>

theorem init_check_unchecked_tag:
  "init_check (\<lambda>v. []) ExampleScenarioInstance [(''resourceType'', VStr ''Observation'')]
     = Inr [(''resourceType'', VStr ''Observation'')]
   \<and> ''Observation'' \<noteq> resource_type_default ExampleScenarioInstance
   \<and> init_check (\<lambda>v. []) Patient
        [(''resource_type'', VStr ''Observation''), (''resourceType'', VStr ''Patient'')]
     = Inr []
   \<and> ''Observation'' \<noteq> resource_type_default Patient"
  by (simp add: init_check_def ExampleScenarioInstance_def Patient_def py_get_def)

text \<open>
  Claim C10, as the code has it. Let the engine give a field that is not among its
  arguments the declared default. Then every instance that the constructor returns has
  the declared default tag as its \<^verbatim>\<open>resource_type\<close>. The arguments handed to the engine
  never hold the key \<^verbatim>\<open>resource_type\<close>. When the class declares no field called
  \<^verbatim>\<open>resourceType\<close> they do not hold that key either. When the class declares such a
  field, what was given under \<^verbatim>\<open>resourceType\<close> is handed to the engine under that key,
  unchanged, as the value for that field. Every other argument is handed on as given.
\<close>

theorem init_resource_type_is_default:
  assumes engine: "\<And>c d d'. base_init c d = Inr d' \<Longrightarrow> map_of d ''resource_type'' = None
                     \<Longrightarrow> map_of d' ''resource_type'' = Some (VStr (resource_type_default c))"
  shows "(\<forall>inst. init base_init fmt cls data = Inr inst
            \<longrightarrow> resource_type_attr inst = Some (VStr (get_resource_type cls)))
       \<and> (\<forall>data'. init_check fmt cls data = Inr data'
            \<longrightarrow> map_of data' ''resource_type'' = None
              \<and> (map_of (cls_fields cls) ''resourceType'' = None
                   \<longrightarrow> map_of data' ''resourceType'' = None)
              \<and> (map_of (cls_fields cls) ''resourceType'' \<noteq> None
                   \<longrightarrow> map_of data' ''resourceType'' = map_of data ''resourceType'')
              \<and> (\<forall>key. key \<noteq> ''resource_type'' \<and> key \<noteq> ''resourceType''
                   \<longrightarrow> map_of data' key = map_of data key))"
proof (intro conjI allI impI)
  fix inst assume ok: "init base_init fmt cls data = Inr inst"
  then obtain data' d where c: "init_check fmt cls data = Inr data'"
    and b: "base_init cls data' = Inr d" and i: "inst = VModel cls d"
    by (auto simp: init_def split: sum.splits)
  from init_check_data[OF c] have "map_of data' ''resource_type'' = None"
    by (auto simp: delete_conv' split: if_splits)
  from engine[OF b this] i show "resource_type_attr inst = Some (VStr (get_resource_type cls))"
    by (simp add: get_resource_type_def)
next
  fix data' assume c: "init_check fmt cls data = Inr data'"
  from init_check_data[OF c] show "map_of data' ''resource_type'' = None"
    by (auto simp: delete_conv' split: if_splits)
  {
    assume "map_of (cls_fields cls) ''resourceType'' = None"
    with init_check_data[OF c] show "map_of data' ''resourceType'' = None"
      by (auto simp: delete_conv' split: if_splits)
  }
  {
    assume "map_of (cls_fields cls) ''resourceType'' \<noteq> None"
    with init_check_data[OF c]
    show "map_of data' ''resourceType'' = map_of data ''resourceType''"
      by (auto simp: delete_conv' split: if_splits)
  }
  fix key assume "key \<noteq> ''resource_type'' \<and> key \<noteq> ''resourceType''"
  with init_check_data[OF c] show "map_of data' key = map_of data key"
    by (auto simp: delete_conv' split: if_splits)
qed

theorem init_resource_type_is_default_witness:
  "init defaults_filling_base_init (\<lambda>v. []) Patient
      [(''resourceType'', VStr ''Patient''), (''active'', VBool True)]
     = Inr (VModel Patient [(''resource_type'', VStr ''Patient''), (''active'', VBool True)])
   \<and> resource_type_attr
        (VModel Patient [(''resource_type'', VStr ''Patient''), (''active'', VBool True)])
       = Some (VStr (get_resource_type Patient))
   \<and> map_of (cls_fields ExampleScenarioInstance) ''resourceType'' \<noteq> None
   \<and> init_check (\<lambda>v. []) ExampleScenarioInstance
        [(''resource_type'', VStr ''ExampleScenarioInstance''),
         (''resourceType'', VStr ''Patient'')]
       = Inr [(''resourceType'', VStr ''Patient'')]
   \<and> map_of [(''resourceType'', VStr ''Patient'')] ''resourceType''
       = map_of [(''resource_type'', VStr ''ExampleScenarioInstance''),
                 (''resourceType'', VStr ''Patient'')] ''resourceType''"
proof -
  have engine: "\<And>c d d'. defaults_filling_base_init c d = Inr d'
                  \<Longrightarrow> map_of d ''resource_type'' = None
                  \<Longrightarrow> map_of d' ''resource_type'' = Some (VStr (resource_type_default c))"
    by (auto simp: defaults_filling_base_init_def)
  have run: "init defaults_filling_base_init (\<lambda>v. []) Patient
      [(''resourceType'', VStr ''Patient''), (''active'', VBool True)]
     = Inr (VModel Patient [(''resource_type'', VStr ''Patient''), (''active'', VBool True)])"
    by (simp add: init_def init_check_def defaults_filling_base_init_def Patient_def
          py_get_def)
  have fld: "map_of (cls_fields ExampleScenarioInstance) ''resourceType'' \<noteq> None"
    by (simp add: ExampleScenarioInstance_def)
  have chk: "init_check (\<lambda>v. []) ExampleScenarioInstance
        [(''resource_type'', VStr ''ExampleScenarioInstance''),
         (''resourceType'', VStr ''Patient'')]
       = Inr [(''resourceType'', VStr ''Patient'')]"
    by (simp add: init_check_def ExampleScenarioInstance_def py_get_def)
  from init_resource_type_is_default
         [of defaults_filling_base_init "\<lambda>v. []" Patient
             "[(''resourceType'', VStr ''Patient''), (''active'', VBool True)]", OF engine]
       init_resource_type_is_default
         [of defaults_filling_base_init "\<lambda>v. []" ExampleScenarioInstance
             "[(''resource_type'', VStr ''ExampleScenarioInstance''),
               (''resourceType'', VStr ''Patient'')]", OF engine]
       run fld chk
  show ?thesis by simp
qed

text \<open>
  Claim C10 as stated fails for a class that declares a field called \<^verbatim>\<open>resourceType\<close>:
  a tag given under that key, even the right one, is not removed from the arguments, and
  the engine stores it as the value of that field.
\<close>

theorem init_check_keeps_resourceType_field:
  "init_check (\<lambda>v. []) ExampleScenarioInstance
      [(''resourceType'', VStr ''ExampleScenarioInstance'')]
     = Inr [(''resourceType'', VStr ''ExampleScenarioInstance'')]
   \<and> init defaults_filling_base_init (\<lambda>v. []) ExampleScenarioInstance
        [(''resourceType'', VStr ''ExampleScenarioInstance'')]
     = Inr (VModel ExampleScenarioInstance
              [(''resource_type'', VStr ''ExampleScenarioInstance''),
               (''resourceType'', VStr ''ExampleScenarioInstance'')])"
  by (simp add: init_def init_check_def defaults_filling_base_init_def
        ExampleScenarioInstance_def py_get_def)

section \<open>Hook registration: the signature check\<close>

lemma set_py_insert: "set (py_insert index x xs) = insert x (set xs)"
proof -
  have u: "set (take n xs) \<union> set (drop n xs) = set xs" for n
    by (metis append_take_drop_id set_append)
  have "set (take n xs @ [x] @ drop n xs) = insert x (set (take n xs) \<union> set (drop n xs))"
    for n by simp
  then have "set (take n xs @ [x] @ drop n xs) = insert x (set xs)" for n
    by (simp only: u)
  then show ?thesis by (simp only: py_insert_def Let_def)
qed

text \<open>
  Claim C7, as the code has it. Let the decorator keep the function it is given and
  raise nothing but configuration errors. Then a function whose number of parameters is
  not two, or whose first parameter is not called \<^verbatim>\<open>cls\<close>, is rejected with a
  \<^verbatim>\<open>ConfigError\<close> and the class is left as it was. The name of the second parameter is
  not looked at: a function with the parameters \<^verbatim>\<open>cls\<close> and any second name, whose name
  collides with nothing and which the decorator accepts, is registered in one of the
  two hook lists and bound under its name.
\<close>

theorem add_root_validator_signature:
  assumes keeps: "\<And>vc. root_validator pre allow_reuse skip_on_failure (unwrap_func validator)
                         = Inr vc \<Longrightarrow> vc_func vc = unwrap_func validator"
    and errs: "\<And>e. root_validator pre allow_reuse skip_on_failure (unwrap_func validator)
                       = Inl e \<Longrightarrow> \<exists>msg. e = ConfigError msg"
  shows "(length (fn_params (unwrap_func validator)) \<noteq> 2
          \<or> hd (fn_params (unwrap_func validator)) \<noteq> ''cls''
          \<longrightarrow> (\<exists>msg. add_root_validator root_validator cls validator pre skip_on_failure
                        allow_reuse index = (cls, Some (ConfigError msg))))
       \<and> (\<forall>second vc.
             fn_params (unwrap_func validator) = [''cls'', second]
             \<and> root_validator pre allow_reuse skip_on_failure (unwrap_func validator) = Inr vc
             \<and> map_of (cls_fields cls) (fn_name (unwrap_func validator)) = None
             \<and> (\<forall>d \<in> set (cls_dict cls # map snd (cls_ancestors cls)).
                   fn_name (unwrap_func validator) \<notin> set d)
             \<longrightarrow> (\<exists>cls'. add_root_validator root_validator cls validator pre skip_on_failure
                            allow_reuse index = (cls', None)
                    \<and> fn_name (unwrap_func validator) \<in> set (cls_dict cls')
                    \<and> unwrap_func validator
                         \<in> set (pre_root_validators cls')
                           \<union> snd ` set (post_root_validators cls')))"
proof (intro conjI impI allI)
  assume bad: "length (fn_params (unwrap_func validator)) \<noteq> 2
          \<or> hd (fn_params (unwrap_func validator)) \<noteq> ''cls''"
  show "\<exists>msg. add_root_validator root_validator cls validator pre skip_on_failure
                        allow_reuse index = (cls, Some (ConfigError msg))"
  proof (cases "root_validator pre allow_reuse skip_on_failure (unwrap_func validator)")
    case (Inl e)
    with errs[OF Inl] show ?thesis
      by (auto simp: add_root_validator_def Let_def)
  next
    case (Inr vc)
    with keeps[OF Inr] bad show ?thesis
      by (auto simp: add_root_validator_def Let_def)
  qed
next
  fix second vc
  assume h: "fn_params (unwrap_func validator) = [''cls'', second]
             \<and> root_validator pre allow_reuse skip_on_failure (unwrap_func validator) = Inr vc
             \<and> map_of (cls_fields cls) (fn_name (unwrap_func validator)) = None
             \<and> (\<forall>d \<in> set (cls_dict cls # map snd (cls_ancestors cls)).
                   fn_name (unwrap_func validator) \<notin> set d)"
  then have f: "vc_func vc = unwrap_func validator" using keeps[of vc] by simp
  from h have nocoll:
    "\<not> list_ex (\<lambda>d. fn_name (unwrap_func validator) \<in> set d)
          (cls_dict cls # map snd (cls_ancestors cls))"
    unfolding list_ex_iff by blast
  from h f nocoll
  show "\<exists>cls'. add_root_validator root_validator cls validator pre skip_on_failure
                            allow_reuse index = (cls', None)
                    \<and> fn_name (unwrap_func validator) \<in> set (cls_dict cls')
                    \<and> unwrap_func validator
                         \<in> set (pre_root_validators cls')
                           \<union> snd ` set (post_root_validators cls')"
    by (simp add: add_root_validator_def Let_def set_py_insert)
qed

theorem add_root_validator_signature_witness:
  "length (fn_params (unwrap_func
      (Function \<lparr>fn_name = ''check'', fn_params = [''self'', ''values'']\<rparr>))) = 2
   \<and> hd (fn_params (unwrap_func
      (Function \<lparr>fn_name = ''check'', fn_params = [''self'', ''values'']\<rparr>))) \<noteq> ''cls''
   \<and> (\<exists>msg. add_root_validator accepting_root_validator Patient
          (Function \<lparr>fn_name = ''check'', fn_params = [''self'', ''values'']\<rparr>)
          False False True (- 1) = (Patient, Some (ConfigError msg)))"
proof -
  have keeps: "\<And>vc. accepting_root_validator False True False
                 (unwrap_func (Function \<lparr>fn_name = ''check'', fn_params = [''self'', ''values'']\<rparr>))
               = Inr vc
          \<Longrightarrow> vc_func vc
                = unwrap_func (Function \<lparr>fn_name = ''check'', fn_params = [''self'', ''values'']\<rparr>)"
    by (auto simp: accepting_root_validator_def)
  have errs: "\<And>e. accepting_root_validator False True False
                 (unwrap_func (Function \<lparr>fn_name = ''check'', fn_params = [''self'', ''values'']\<rparr>))
               = Inl e \<Longrightarrow> \<exists>msg. e = ConfigError msg"
    by (simp add: accepting_root_validator_def)
  from add_root_validator_signature
         [of accepting_root_validator False True False
             "Function \<lparr>fn_name = ''check'', fn_params = [''self'', ''values'']\<rparr>"
             Patient "- 1", OF keeps errs]
  show ?thesis by simp
qed

text \<open>
  Claim C7 as stated fails at a function with the parameters \<^verbatim>\<open>cls\<close> and \<^verbatim>\<open>data\<close>: the
  second parameter is not called \<^verbatim>\<open>values\<close>, and the function is registered.
\<close>

theorem add_root_validator_second_name_unchecked:
  "add_root_validator accepting_root_validator Patient
      (Function \<lparr>fn_name = ''check'', fn_params = [''cls'', ''data'']\<rparr>)
      False False True (- 1)
     = (Patient\<lparr>cls_dict := [''elements_sequence'', ''check''],
               post_root_validators :=
                 [(False, \<lparr>fn_name = ''check'', fn_params = [''cls'', ''data'']\<rparr>)]\<rparr>,
        None)"
  by (simp add: add_root_validator_def accepting_root_validator_def Patient_def
        abstract_model_mro_def Let_def)

section \<open>Serialization: properties\<close>

lemma fhir_iter_props_step_keys:
  assumes "fhir_iter_props c d ba en ec (pname # props) = Inr pairs" and "(k, v) \<in> set pairs"
  shows "k \<in> set (prop_keys c ba pname)
     \<or> (\<exists>rest. fhir_iter_props c d ba en ec props = Inr rest \<and> (k, v) \<in> set rest)"
proof -
  from assms(1) obtain field_key field where
    a: "map_of (alias_mapping c) pname = Some field_key"
    and f: "map_of (cls_fields c) field_key = Some field"
    by (auto split: option.splits)
  show ?thesis
  proof (cases "map_of (cls_fields c) (field_key @ ''__ext'')")
    case None
    with assms a f show ?thesis
      by (auto simp: Let_def prop_keys_def split: sum.splits if_splits option.splits)
  next
    case (Some ext_field)
    with assms a f show ?thesis
      by (auto simp: Let_def prop_keys_def split: sum.splits if_splits option.splits)
  qed
qed

lemma fhir_iter_props_keys:
  "fhir_iter_props c d ba en ec props = Inr pairs \<Longrightarrow>
     fst ` set pairs \<subseteq> set (concat (map (prop_keys c ba) props))"
proof (induction props arbitrary: pairs)
  case Nil
  then show ?case by simp
next
  case (Cons pname props)
  show ?case
  proof
    fix k assume "k \<in> fst ` set pairs"
    then obtain v where kv: "(k, v) \<in> set pairs" by auto
    from fhir_iter_props_step_keys[OF Cons.prems kv]
    show "k \<in> set (concat (map (prop_keys c ba) (pname # props)))"
    proof
      assume "k \<in> set (prop_keys c ba pname)"
      then show ?thesis by simp
    next
      assume "\<exists>rest. fhir_iter_props c d ba en ec props = Inr rest \<and> (k, v) \<in> set rest"
      then obtain rest where "fhir_iter_props c d ba en ec props = Inr rest" "(k, v) \<in> set rest"
        by blast
      with Cons.IH[of rest] have "k \<in> set (concat (map (prop_keys c ba) props))" by force
      then show ?thesis by simp
    qed
  qed
qed

lemma update_hd:
  "acc \<noteq> [] \<Longrightarrow> AList.update k v acc \<noteq> [] \<and> fst (hd (AList.update k v acc)) = fst (hd acc)"
  by (cases acc) auto

lemma OrderedDict_fold_hd:
  "acc \<noteq> [] \<Longrightarrow>
     foldl (\<lambda>acc (k, v). AList.update k v acc) acc ps \<noteq> []
     \<and> fst (hd (foldl (\<lambda>acc (k, v). AList.update k v acc) acc ps)) = fst (hd acc)"
proof (induction ps arbitrary: acc)
  case Nil
  then show ?case by simp
next
  case (Cons p ps)
  obtain k v where p: "p = (k, v)" by (cases p)
  from update_hd[OF Cons.prems, of k v] Cons.IH[of "AList.update k v acc"]
  show ?case by (simp add: p)
qed

lemma OrderedDict_first_key:
  "OrderedDict ((k, v) # ps) \<noteq> [] \<and> fst (hd (OrderedDict ((k, v) # ps))) = k"
  using OrderedDict_fold_hd[of "[(k, v)]" ps] by (simp add: OrderedDict_def)

lemma OrderedDict_fold_keys:
  "fst ` set (foldl (\<lambda>acc (k, v). AList.update k v acc) acc ps) = fst ` set acc \<union> fst ` set ps"
proof (induction ps arbitrary: acc)
  case Nil
  then show ?case by simp
next
  case (Cons p ps)
  obtain k v where p: "p = (k, v)" by (cases p)
  show ?case by (simp add: p Cons.IH dom_update)
qed

lemma OrderedDict_keys: "fst ` set (OrderedDict ps) = fst ` set ps"
  by (simp add: OrderedDict_def OrderedDict_fold_keys)

lemma OrderedDict_fold_lookup:
  "(\<forall>kv \<in> set ps. fst kv = key \<longrightarrow> snd kv = x) \<Longrightarrow>
   map_of acc key = Some x \<or> key \<in> fst ` set ps \<Longrightarrow>
     map_of (foldl (\<lambda>acc (k, v). AList.update k v acc) acc ps) key = Some x"
proof (induction ps arbitrary: acc)
  case Nil
  then show ?case by simp
next
  case (Cons p ps)
  obtain k v where p: "p = (k, v)" by (cases p)
  have "map_of (AList.update k v acc) key = Some x \<or> key \<in> fst ` set ps"
    using Cons.prems by (auto simp: p update_conv')
  moreover have "\<forall>kv \<in> set ps. fst kv = key \<longrightarrow> snd kv = x" using Cons.prems by simp
  ultimately show ?case using Cons.IH[of "AList.update k v acc"] by (simp add: p)
qed

lemma OrderedDict_lookup:
  "(\<forall>kv \<in> set ps. fst kv = key \<longrightarrow> snd kv = x) \<Longrightarrow> key \<in> fst ` set ps \<Longrightarrow>
     map_of (OrderedDict ps) key = Some x"
  using OrderedDict_fold_lookup[of ps key x "[]"] by (simp add: OrderedDict_def)

lemma ext_key_not_resource_type: "fk @ ''__ext'' \<noteq> ''resource_type''"
proof
  assume "fk @ ''__ext'' = ''resource_type''"
  then have "last (fk @ ''__ext'') = last ''resource_type''" by simp
  then show False by simp
qed

lemma fhir_iter_props_flat:
  assumes "\<forall>p \<in> set props. \<exists>fk f. map_of (alias_mapping c) p = Some fk
              \<and> map_of (cls_fields c) fk = Some f
              \<and> (py_get d fk = VNone \<or> py_get d fk = VList [])
              \<and> py_get d (fk @ ''__ext'') = VNone"
  shows "fhir_iter_props c d ba en ec props =
           Inr (if en then []
                else map (\<lambda>p. (element_key c ba p, py_get d (element_field_key c p))) props)"
  using assms
proof (induction props)
  case Nil
  then show ?case by simp
next
  case (Cons p props)
  then obtain fk f where a: "map_of (alias_mapping c) p = Some fk"
    and f: "map_of (cls_fields c) fk = Some f"
    and v: "py_get d fk = VNone \<or> py_get d fk = VList []"
    and e: "py_get d (fk @ ''__ext'') = VNone"
    by auto
  from Cons have ih: "fhir_iter_props c d ba en ec props =
           Inr (if en then []
                else map (\<lambda>p. (element_key c ba p, py_get d (element_field_key c p))) props)"
    by simp
  from v show ?case
  proof
    assume "py_get d fk = VNone"
    then show ?thesis using a f e ih
      by (cases ba; cases en; simp add: Let_def element_key_def element_field_key_def)
  next
    assume "py_get d fk = VList []"
    then show ?thesis using a f e ih
      by (cases ba; cases en;
          simp add: Let_def element_key_def element_field_key_def collapse_empty_def)
  qed
qed

text \<open>
  Claim C9. Keyword arguments beyond the three flags change nothing in what \<^verbatim>\<open>dict\<close>
  returns or raises: the result is the result of the call without them. Their only
  effect is one warning in the log.
\<close>

theorem dict_extra_arguments_ignored:
  fixes pydantic_extra :: "(string \<times> 'x) list"
  shows "snd (dict cls d by_alias exclude_none exclude_comments pydantic_extra)
     = snd (dict cls d by_alias exclude_none exclude_comments ([] :: (string \<times> 'x) list))
   \<and> fst (dict cls d by_alias exclude_none exclude_comments pydantic_extra)
     = (if pydantic_extra = [] then [] else [DictExtraArgumentsWarning (cls_name cls)])"
  by (simp add: dict_def)

theorem dict_extra_arguments_ignored_witness:
  "dict Patient [(''resource_type'', VStr ''Patient''), (''active'', VBool True)]
      True True False [(''exclude_unset'', ExtraBool True)]
     = ([DictExtraArgumentsWarning ''Patient''],
        snd (dict Patient [(''resource_type'', VStr ''Patient''), (''active'', VBool True)]
               True True False ([] :: (string \<times> extra_arg) list)))
   \<and> snd (dict Patient [(''resource_type'', VStr ''Patient''), (''active'', VBool True)]
            True True False ([] :: (string \<times> extra_arg) list))
     = Inr [(''resourceType'', VStr ''Patient''), (''active'', VBool True)]"
proof -
  have run: "snd (dict Patient [(''resource_type'', VStr ''Patient''), (''active'', VBool True)]
            True True False ([] :: (string \<times> extra_arg) list))
     = Inr [(''resourceType'', VStr ''Patient''), (''active'', VBool True)]"
    by (simp add: dict_def has_resource_base_def getmro_names_def Patient_def
          abstract_model_mro_def py_get_def collapse_empty_def OrderedDict_def Let_def)
  have n: "cls_name Patient = ''Patient''"
    by (simp add: Patient_def)
  from dict_extra_arguments_ignored
         [of Patient "[(''resource_type'', VStr ''Patient''), (''active'', VBool True)]"
             True True False "[(''exclude_unset'', ExtraBool True)]"]
  have same: "snd (dict Patient [(''resource_type'', VStr ''Patient''), (''active'', VBool True)]
                True True False [(''exclude_unset'', ExtraBool True)])
       = snd (dict Patient [(''resource_type'', VStr ''Patient''), (''active'', VBool True)]
                True True False ([] :: (string \<times> extra_arg) list))"
    and log: "fst (dict Patient [(''resource_type'', VStr ''Patient''), (''active'', VBool True)]
                True True False [(''exclude_unset'', ExtraBool True)])
       = [DictExtraArgumentsWarning ''Patient'']"
    using n by simp_all
  show ?thesis
    unfolding prod_eq_iff fst_conv snd_conv using same log run by blast
qed

text \<open>
  Claim C5, as the code has it. For a class with the resource base, the mapping form
  that \<^verbatim>\<open>dict\<close> returns starts with the key \<^verbatim>\<open>resourceType\<close>. For a class without it,
  no type tag is emitted: every key of the mapping form is the key of an element of the
  class, of the extension companion of one, or \<^verbatim>\<open>fhir_comments\<close>; so \<^verbatim>\<open>resourceType\<close> is
  not a key unless the class has an element or a companion that is emitted under that
  very key.
\<close>

theorem dict_resource_type_key:
  "(has_resource_base cls \<longrightarrow>
      (\<forall>log out. dict cls d by_alias exclude_none exclude_comments pydantic_extra = (log, Inr out)
         \<longrightarrow> out \<noteq> [] \<and> fst (hd out) = ''resourceType''))
   \<and> (\<not> has_resource_base cls \<longrightarrow>
      (\<forall>log out. dict cls d by_alias exclude_none exclude_comments pydantic_extra = (log, Inr out)
         \<longrightarrow> fst ` set out \<subseteq> set (element_keys cls by_alias) \<union> {''fhir_comments''}
           \<and> (''resourceType'' \<notin> set (element_keys cls by_alias)
                \<longrightarrow> ''resourceType'' \<notin> fst ` set out)))"
proof (intro conjI impI allI)
  fix log out
  assume r: "has_resource_base cls"
    and o: "dict cls d by_alias exclude_none exclude_comments pydantic_extra = (log, Inr out)"
  from o obtain pairs where it: "fhir_iter cls d by_alias exclude_none exclude_comments = Inr pairs"
    and out: "out = OrderedDict pairs"
    by (auto simp: dict_def split: sum.splits)
  from it r obtain tag rest where "pairs = (''resourceType'', tag) # rest"
    by (auto simp: Let_def split: sum.splits option.splits)
  with out OrderedDict_first_key[of "''resourceType''" tag rest]
  show "out \<noteq> []" and "fst (hd out) = ''resourceType''" by simp_all
next
  fix log out
  assume r: "\<not> has_resource_base cls"
    and o: "dict cls d by_alias exclude_none exclude_comments pydantic_extra = (log, Inr out)"
  from o obtain pairs where it: "fhir_iter cls d by_alias exclude_none exclude_comments = Inr pairs"
    and out: "out = OrderedDict pairs"
    by (auto simp: dict_def split: sum.splits)
  from it r obtain body where
    b: "fhir_iter_props cls d by_alias exclude_none exclude_comments (elements_sequence cls) = Inr body"
    and p: "fst ` set pairs \<subseteq> fst ` set body \<union> {''fhir_comments''}"
    by (auto simp: Let_def split: sum.splits if_splits)
  have "fst ` set out = fst ` set pairs" using out by (simp add: OrderedDict_keys)
  also have "\<dots> \<subseteq> fst ` set body \<union> {''fhir_comments''}" by (rule p)
  also have "\<dots> \<subseteq> set (element_keys cls by_alias) \<union> {''fhir_comments''}"
    using fhir_iter_props_keys[OF b] unfolding element_keys_def by blast
  finally show k: "fst ` set out \<subseteq> set (element_keys cls by_alias) \<union> {''fhir_comments''}" .
  assume "''resourceType'' \<notin> set (element_keys cls by_alias)"
  with k show "''resourceType'' \<notin> fst ` set out" by auto
qed

theorem dict_resource_type_key_witness:
  "has_resource_base Patient
   \<and> dict Patient [(''resource_type'', VStr ''Patient''), (''active'', VBool True)]
        True True False ([] :: (string \<times> unit) list)
       = ([], Inr [(''resourceType'', VStr ''Patient''), (''active'', VBool True)])
   \<and> fst (hd [(''resourceType'', VStr ''Patient''), (''active'', VBool True)])
       = ''resourceType''
   \<and> \<not> has_resource_base HumanName
   \<and> ''resourceType'' \<notin> set (element_keys HumanName True)
   \<and> dict HumanName [(''resource_type'', VStr ''HumanName''), (''family'', VStr ''Doe'')]
        True True False ([] :: (string \<times> unit) list)
       = ([], Inr [(''family'', VStr ''Doe'')])
   \<and> ''resourceType'' \<notin> fst ` set [(''family'', VStr ''Doe'')]"
proof -
  have p: "has_resource_base Patient"
    by (simp add: has_resource_base_def getmro_names_def Patient_def abstract_model_mro_def)
  have h: "\<not> has_resource_base HumanName"
    by (simp add: has_resource_base_def getmro_names_def HumanName_def abstract_model_mro_def)
  have dp: "dict Patient [(''resource_type'', VStr ''Patient''), (''active'', VBool True)]
        True True False ([] :: (string \<times> unit) list)
       = ([], Inr [(''resourceType'', VStr ''Patient''), (''active'', VBool True)])"
    using p by (simp add: dict_def Patient_def py_get_def collapse_empty_def
          OrderedDict_def Let_def)
  have dh: "dict HumanName [(''resource_type'', VStr ''HumanName''), (''family'', VStr ''Doe'')]
        True True False ([] :: (string \<times> unit) list)
       = ([], Inr [(''family'', VStr ''Doe'')])"
    using h by (simp add: dict_def HumanName_def py_get_def collapse_empty_def
          OrderedDict_def Let_def)
  have k: "''resourceType'' \<notin> set (element_keys HumanName True)"
    by (simp add: element_keys_def prop_keys_def HumanName_def)
  from dict_resource_type_key
         [of Patient "[(''resource_type'', VStr ''Patient''), (''active'', VBool True)]"
             True True False "[] :: (string \<times> unit) list"]
       dict_resource_type_key
         [of HumanName "[(''resource_type'', VStr ''HumanName''), (''family'', VStr ''Doe'')]"
             True True False "[] :: (string \<times> unit) list"]
       p h dp dh k
  show ?thesis by simp
qed

text \<open>
  Claim C5 as stated fails for a class without the resource base that has an element of
  its own called \<^verbatim>\<open>resourceType\<close>: its mapping form holds the key \<^verbatim>\<open>resourceType\<close>, with
  the value of that element.
\<close>

theorem dict_resourceType_element_of_non_resource:
  "\<not> has_resource_base ExampleScenarioInstance
   \<and> dict ExampleScenarioInstance
       [(''resource_type'', VStr ''ExampleScenarioInstance''),
        (''resourceType'', VStr ''Patient'')]
       True True False ([] :: (string \<times> unit) list)
     = ([], Inr [(''resourceType'', VStr ''Patient'')])"
  by (simp add: dict_def has_resource_base_def getmro_names_def ExampleScenarioInstance_def
        abstract_model_mro_def py_get_def collapse_empty_def OrderedDict_def Let_def)

text \<open>
  Claim C3, as the code has it. Take a class whose element names all resolve to
  declared fields, and an instance in which nothing is populated but the type tag and
  one element, which is emitted under a key of its own. With \<^verbatim>\<open>exclude_none\<close> true and
  the element an empty list, the mapping form is the type tag alone (for a resource) or
  empty: the element is omitted. With \<^verbatim>\<open>exclude_none\<close> false, the element is in the
  mapping form with the value it has: \<^verbatim>\<open>None\<close> when it is \<^verbatim>\<open>None\<close>, and the empty list
  when it is the empty list.
\<close>

theorem dict_empty_list_field:
  assumes wf: "elements_resolve c"
    and p0: "p0 \<in> set (elements_sequence c)"
    and inst: "\<forall>key. key \<noteq> element_field_key c p0 \<and> key \<noteq> ''resource_type''
                 \<longrightarrow> py_get d key = VNone"
    and res: "has_resource_base c \<longrightarrow>
                map_of d ''resource_type'' = Some tag \<and> element_key c ba p0 \<noteq> ''resourceType''"
    and sep: "\<forall>p \<in> set (elements_sequence c).
                element_field_key c p \<noteq> ''resource_type''
                \<and> element_field_key c p \<noteq> ''fhir_comments''
                \<and> element_field_key c p @ ''__ext'' \<noteq> element_field_key c p0
                \<and> (element_key c ba p = element_key c ba p0
                     \<longrightarrow> element_field_key c p = element_field_key c p0)"
  shows "(py_get d (element_field_key c p0) = VList [] \<longrightarrow>
            snd (dict c d ba True ec pydantic_extra)
              = Inr (if has_resource_base c then [(''resourceType'', tag)] else []))
       \<and> (py_get d (element_field_key c p0) = VNone \<longrightarrow>
            (\<exists>out. snd (dict c d ba False ec pydantic_extra) = Inr out
                  \<and> map_of out (element_key c ba p0) = Some VNone))
       \<and> (py_get d (element_field_key c p0) = VList [] \<longrightarrow>
            (\<exists>out. snd (dict c d ba False ec pydantic_extra) = Inr out
                  \<and> map_of out (element_key c ba p0) = Some (VList [])))"
proof -
  let ?fk0 = "element_field_key c p0"
  let ?k0 = "element_key c ba p0"
  let ?tagp = "if has_resource_base c then [(''resourceType'', tag)] else []"
  let ?row = "\<lambda>p. (element_key c ba p, py_get d (element_field_key c p))"
  have sep0: "element_field_key c p \<noteq> ''resource_type''"
             "element_field_key c p \<noteq> ''fhir_comments''"
             "element_field_key c p @ ''__ext'' \<noteq> ?fk0"
             "element_key c ba p = ?k0 \<Longrightarrow> element_field_key c p = ?fk0"
    if "p \<in> set (elements_sequence c)" for p
    using sep that by blast+
  have other: "py_get d key = VNone" if "key \<noteq> ?fk0" "key \<noteq> ''resource_type''" for key
    using inst that by blast
  have comments: "py_get d ''fhir_comments'' = VNone"
  proof (rule other)
    show "''fhir_comments'' \<noteq> ?fk0" using sep0(2)[OF p0] by simp
    show "''fhir_comments'' \<noteq> ''resource_type''" by simp
  qed
  have flat: "fhir_iter_props c d ba en ec (elements_sequence c) =
           Inr (if en then [] else map ?row (elements_sequence c))"
    if v0: "py_get d ?fk0 = VNone \<or> py_get d ?fk0 = VList []" for en
  proof (rule fhir_iter_props_flat, intro ballI)
    fix p assume p: "p \<in> set (elements_sequence c)"
    with wf obtain fk f where a: "map_of (alias_mapping c) p = Some fk"
      and f: "map_of (cls_fields c) fk = Some f"
      unfolding elements_resolve_def list_all_iff
      by (fastforce split: option.splits)
    have fk: "element_field_key c p = fk" using a by (simp add: element_field_key_def)
    have val: "py_get d fk = VNone \<or> py_get d fk = VList []"
    proof (cases "fk = ?fk0")
      case True
      then show ?thesis using v0 by simp
    next
      case False
      then have "py_get d fk = VNone" using other[of fk] sep0(1)[OF p] fk by simp
      then show ?thesis ..
    qed
    have ext: "py_get d (fk @ ''__ext'') = VNone"
    proof (rule other)
      show "fk @ ''__ext'' \<noteq> ?fk0" using sep0(3)[OF p] fk by simp
      show "fk @ ''__ext'' \<noteq> ''resource_type''" by (rule ext_key_not_resource_type)
    qed
    from a f val ext
    show "\<exists>fk f. map_of (alias_mapping c) p = Some fk
              \<and> map_of (cls_fields c) fk = Some f
              \<and> (py_get d fk = VNone \<or> py_get d fk = VList [])
              \<and> py_get d (fk @ ''__ext'') = VNone"
      by blast
  qed
  have iter: "fhir_iter c d ba en ec =
           Inr (?tagp @ (if en then [] else map ?row (elements_sequence c)))"
    if v0: "py_get d ?fk0 = VNone \<or> py_get d ?fk0 = VList []" for en
  proof (cases "has_resource_base c")
    case True
    with res have "map_of d ''resource_type'' = Some tag" by simp
    with True flat[OF v0, of en] comments show ?thesis
      by (simp add: Let_def del: fhir_iter_props.simps)
  next
    case False
    with flat[OF v0, of en] comments show ?thesis
      by (simp add: Let_def del: fhir_iter_props.simps)
  qed
  have lookup: "\<exists>out. snd (dict c d ba False ec pydantic_extra) = Inr out
                  \<and> map_of out ?k0 = Some v0"
    if v0: "py_get d ?fk0 = v0" and vv: "v0 = VNone \<or> v0 = VList []" for v0
  proof -
    let ?pairs = "?tagp @ map ?row (elements_sequence c)"
    have it: "fhir_iter c d ba False ec = Inr ?pairs"
      using iter[of False] v0 vv by simp
    have vals: "\<forall>kv \<in> set ?pairs. fst kv = ?k0 \<longrightarrow> snd kv = v0"
    proof (intro ballI impI)
      fix kv assume kv: "kv \<in> set ?pairs" and k: "fst kv = ?k0"
      have "kv \<notin> set ?tagp" using res k by (auto split: if_splits)
      with kv obtain p where p: "p \<in> set (elements_sequence c)" and e: "kv = ?row p"
        by auto
      from sep0(4)[OF p] k e have "element_field_key c p = ?fk0" by simp
      with e v0 show "snd kv = v0" by simp
    qed
    have "?row p0 \<in> set ?pairs" using p0 by simp
    then have "fst (?row p0) \<in> fst ` set ?pairs" by (rule imageI)
    then have mem: "?k0 \<in> fst ` set ?pairs" by simp
    from OrderedDict_lookup[OF vals mem] it show ?thesis
      by (simp add: dict_def del: fhir_iter.simps)
  qed
  have one: "py_get d ?fk0 = VList [] \<Longrightarrow>
            snd (dict c d ba True ec pydantic_extra) = Inr ?tagp"
    using iter[of True] by (simp add: dict_def OrderedDict_def del: fhir_iter.simps)
  from one lookup[of VNone] lookup[of "VList []"] show ?thesis by blast
qed

theorem dict_empty_list_field_witness:
  "py_get [(''resource_type'', VStr ''Patient''), (''name'', VList [])]
      (element_field_key Patient ''name'') = VList []
   \<and> snd (dict Patient [(''resource_type'', VStr ''Patient''), (''name'', VList [])]
            True True False ([] :: (string \<times> unit) list))
       = Inr [(''resourceType'', VStr ''Patient'')]
   \<and> (\<exists>out. snd (dict Patient [(''resource_type'', VStr ''Patient''), (''name'', VList [])]
                   True False False ([] :: (string \<times> unit) list)) = Inr out
            \<and> map_of out ''name'' = Some (VList []))"
proof -
  let ?d = "[(''resource_type'', VStr ''Patient''), (''name'', VList [])]"
  have r: "has_resource_base Patient"
    by (simp add: has_resource_base_def getmro_names_def Patient_def abstract_model_mro_def)
  have wf: "elements_resolve Patient"
    by (simp add: elements_resolve_def Patient_def)
  have p0: "''name'' \<in> set (elements_sequence Patient)"
    by (simp add: Patient_def)
  have fk: "element_field_key Patient ''name'' = ''name''"
           "element_field_key Patient ''active'' = ''active''"
           "element_key Patient True ''name'' = ''name''"
           "element_key Patient True ''active'' = ''active''"
    by (simp_all add: element_field_key_def element_key_def Patient_def)
  have inst: "\<forall>key. key \<noteq> element_field_key Patient ''name'' \<and> key \<noteq> ''resource_type''
                 \<longrightarrow> py_get ?d key = VNone"
    by (simp add: fk py_get_def)
  have res: "has_resource_base Patient \<longrightarrow>
                map_of ?d ''resource_type'' = Some (VStr ''Patient'')
                \<and> element_key Patient True ''name'' \<noteq> ''resourceType''"
    by (simp add: fk)
  have sep: "\<forall>p \<in> set (elements_sequence Patient).
                element_field_key Patient p \<noteq> ''resource_type''
                \<and> element_field_key Patient p \<noteq> ''fhir_comments''
                \<and> element_field_key Patient p @ ''__ext'' \<noteq> element_field_key Patient ''name''
                \<and> (element_key Patient True p = element_key Patient True ''name''
                     \<longrightarrow> element_field_key Patient p = element_field_key Patient ''name'')"
  proof
    fix p assume "p \<in> set (elements_sequence Patient)"
    then have "p = ''active'' \<or> p = ''name''" by (simp add: Patient_def)
    then show "element_field_key Patient p \<noteq> ''resource_type''
                \<and> element_field_key Patient p \<noteq> ''fhir_comments''
                \<and> element_field_key Patient p @ ''__ext'' \<noteq> element_field_key Patient ''name''
                \<and> (element_key Patient True p = element_key Patient True ''name''
                     \<longrightarrow> element_field_key Patient p = element_field_key Patient ''name'')"
      by (auto simp: fk)
  qed
  have v: "py_get ?d (element_field_key Patient ''name'') = VList []"
    by (simp add: fk py_get_def)
  from dict_empty_list_field
         [of Patient "''name''" ?d "VStr ''Patient''" True False
             "[] :: (string \<times> unit) list", OF wf p0 inst res sep]
       v r fk
  show ?thesis by simp
qed

text \<open>
  Claim C3 as stated fails in its last part: with \<^verbatim>\<open>exclude_none\<close> false, an element set
  to the empty list is not omitted. The empty list is turned into \<^verbatim>\<open>None\<close> only when
  \<^verbatim>\<open>exclude_none\<close> is true.
\<close>

theorem dict_keeps_empty_list_without_exclude_none:
  "dict Patient [(''resource_type'', VStr ''Patient''), (''name'', VList [])]
      True False False ([] :: (string \<times> unit) list)
     = ([], Inr [(''resourceType'', VStr ''Patient''), (''active'', VNone),
                 (''name'', VList [])])"
  by (simp add: dict_def has_resource_base_def getmro_names_def Patient_def
        abstract_model_mro_def py_get_def collapse_empty_def OrderedDict_def Let_def)

text \<open>
  Claim C2, at a patient whose only name holds nothing but a comment. \<^verbatim>\<open>json\<close> with
  \<^verbatim>\<open>exclude_comments\<close> true puts the comment key into \<^verbatim>\<open>exclude\<close> and passes \<^verbatim>\<open>exclude\<close> to
  \<^verbatim>\<open>dict\<close>, which ignores it with a warning; \<^verbatim>\<open>exclude_comments\<close> itself is not passed.
  The value handed to the encoder still holds the comment, and the name that holds
  nothing else is still there.
\<close>

theorem json_exclude_comments_keeps_comments:
  "json_data Patient
     [(''resource_type'', VStr ''Patient''),
      (''name'', VList [VModel HumanName
          [(''resource_type'', VStr ''HumanName''),
           (''fhir_comments'', VList [VStr ''note''])]])]
     ExcludeNone ExcludeNone None False False None True
   = ([DictExtraArgumentsWarning ''Patient''],
      Inr (VDict [(''resourceType'', VStr ''Patient''),
                  (''name'', VList [VDict [(''fhir_comments'', VList [VStr ''note''])]])]))"
  by (simp add: json_data_def dict_def has_resource_base_def getmro_names_def Patient_def
        HumanName_def abstract_model_mro_def py_get_def collapse_empty_def OrderedDict_def
        Let_def del_at_def)

end
